theory Spec2Isabelle
  imports Complex_Main
begin

section \<open>Strings, paths and Python truthiness\<close>

text \<open>
  Strings are lists of 8-bit characters. The encoder's progress output is ASCII; the
  case conversion below is the ASCII part of \<^verbatim>\<open>str.lower\<close>.
\<close>

definition lower_char :: "char \<Rightarrow> char" where
  "lower_char c =
     (case map_of (zip ''ABCDEFGHIJKLMNOPQRSTUVWXYZ'' ''abcdefghijklmnopqrstuvwxyz'') c of
        Some l \<Rightarrow> l
      | None \<Rightarrow> c)"

definition lower :: "string \<Rightarrow> string" where
  "lower s = map lower_char s"

text \<open>
  \<^verbatim>\<open>Path(p).name\<close>: the last component of a path written with forward slashes.
\<close>

definition path_name :: "string \<Rightarrow> string" where
  "path_name p = rev (takeWhile (\<lambda>c. c \<noteq> CHR ''/'') (rev p))"

text \<open>
  \<^verbatim>\<open>Path(p).suffix\<close>: with \<^verbatim>\<open>i = name.rfind('.')\<close>, the suffix is
  \<^verbatim>\<open>name[i:]\<close> when \<^verbatim>\<open>0 < i < len(name) - 1\<close> and empty otherwise.
\<close>

definition path_suffix :: "string \<Rightarrow> string" where
  "path_suffix p =
     (let name = path_name p;
          after = takeWhile (\<lambda>c. c \<noteq> CHR ''.'') (rev name)
      in if length after = length name \<or> after = [] \<or> length after + 1 = length name
         then [] else CHR ''.'' # rev after)"

definition lstrip_dot :: "string \<Rightarrow> string" where
  "lstrip_dot s = dropWhile (\<lambda>c. c = CHR ''.'') s"

text \<open>\<^verbatim>\<open>Path(p).suffix.lstrip('.').lower()\<close>\<close>

definition file_ext :: "string \<Rightarrow> string" where
  "file_ext p = lower (lstrip_dot (path_suffix p))"

text \<open>
  An \<^verbatim>\<open>Optional[str]\<close> used as a condition: \<^verbatim>\<open>None\<close> and the empty
  string are false.
\<close>

fun truthy :: "string option \<Rightarrow> bool" where
  "truthy None = False"
| "truthy (Some s) = (s \<noteq> [])"

text \<open>\<^verbatim>\<open>if v: cmd.extend([flag, v])\<close>\<close>

fun opt_arg :: "string \<Rightarrow> string option \<Rightarrow> string list" where
  "opt_arg flag None = []"
| "opt_arg flag (Some v) = (if v \<noteq> [] then [flag, v] else [])"

section \<open>Compatibility policy and command builder\<close>

subsection \<open>Audio (\<^verbatim>\<open>convert_audio\<close>, command part)\<close>

definition incompatible_combinations :: "(string \<times> string) list" where
  "incompatible_combinations =
     [(''wma'', ''mp3''), (''wma'', ''aac''), (''wma'', ''flac''), (''wma'', ''wav''),
      (''m4a'', ''mp3''), (''m4a'', ''wma''), (''aac'', ''mp3''), (''aac'', ''wma''),
      (''mp3'', ''aac''), (''mp3'', ''wma''), (''mp3'', ''flac''),
      (''flac'', ''mp3''), (''flac'', ''aac''), (''flac'', ''wma''),
      (''wav'', ''mp3''), (''wav'', ''aac''), (''wav'', ''wma''), (''wav'', ''flac'')]"

text \<open>
  The three consecutive \<^verbatim>\<open>if\<close> blocks of \<^verbatim>\<open>convert_audio\<close> that settle the
  codec and whether copy mode stays in effect. The codec is optional because the
  request model declares it \<^verbatim>\<open>Optional[str]\<close>.
\<close>

definition audio_codec_plan ::
  "string \<Rightarrow> string \<Rightarrow> string option \<Rightarrow> bool \<Rightarrow> string option \<times> bool" where
  "audio_codec_plan input_ext output_ext codec has_audio_params =
     (let is_copy_mode = (codec = Some ''copy'');
          (codec1, copy1) =
            (if is_copy_mode \<and> (input_ext, output_ext) \<in> set incompatible_combinations
             then (Some (if output_ext = ''mp3'' then ''libmp3lame''
                         else if output_ext \<in> {''aac'', ''m4a''} then ''aac''
                         else if output_ext = ''flac'' then ''flac''
                         else ''aac''), False)
             else (codec, is_copy_mode));
          codec2 =
            (if \<not> copy1
             then (if output_ext = ''mp3'' then Some ''libmp3lame''
                   else if output_ext \<in> {''m4a'', ''aac''} then Some ''aac''
                   else codec1)
             else codec1)
      in if copy1 \<and> has_audio_params
         then (Some (if output_ext = ''mp3'' then ''libmp3lame''
                     else if output_ext \<in> {''m4a'', ''aac''} then ''aac''
                     else ''aac''), False)
         else (codec2, copy1))"

text \<open>
  The argument list of \<^verbatim>\<open>convert_audio\<close>. \<^verbatim>\<open>ffmpeg\<close> is the resolved
  executable. The result is \<open>None\<close> when the codec is still \<^verbatim>\<open>None\<close>: joining the
  list for the log line then raises \<^verbatim>\<open>TypeError\<close>.
\<close>

definition convert_audio_cmd ::
  "string \<Rightarrow> string \<Rightarrow> string \<Rightarrow> string option \<Rightarrow> string option \<Rightarrow> string option \<Rightarrow>
   string option \<Rightarrow> string option \<Rightarrow> string list option" where
  "convert_audio_cmd ffmpeg input_file output_file bitrate sample_rate channels codec
     volume_adjust =
     (let output_ext = file_ext output_file;
          has_audio_params =
            (truthy bitrate \<or> truthy sample_rate \<or> truthy channels \<or> truthy volume_adjust);
          (codec', is_copy_mode) =
            audio_codec_plan (file_ext input_file) output_ext codec has_audio_params
      in case codec' of
           None \<Rightarrow> None
         | Some c \<Rightarrow>
             Some ([ffmpeg, ''-i'', input_file] @ [''-c:a'', c] @
                   (if \<not> is_copy_mode
                    then opt_arg ''-b:a'' bitrate @ opt_arg ''-ar'' sample_rate @
                         opt_arg ''-ac'' channels @
                         (case volume_adjust of
                            None \<Rightarrow> []
                          | Some v \<Rightarrow> if v \<noteq> [] then [''-af'', ''volume='' @ v] else [])
                    else []) @
                   [''-progress'', ''pipe:2''] @ [''-y'', output_file]))"

subsection \<open>Video (\<^verbatim>\<open>convert_video\<close>, command part)\<close>

definition incompatible_video_combinations :: "(string \<times> string) list" where
  "incompatible_video_combinations =
     [(''avi'', ''mp4''), (''avi'', ''mkv''), (''avi'', ''mov''),
      (''mov'', ''avi''),
      (''wmv'', ''mp4''), (''wmv'', ''mkv''), (''wmv'', ''mov''), (''wmv'', ''avi'')]"

text \<open>
  The video decision: codec, copy mode in effect, and whether the advisory warning
  about the source/target pair was logged.
\<close>

definition video_codec_plan ::
  "string \<Rightarrow> string \<Rightarrow> string option \<Rightarrow> bool \<Rightarrow> string option \<times> bool \<times> bool" where
  "video_codec_plan input_ext output_ext video_codec has_video_params =
     (let is_copy_mode = (video_codec = Some ''copy'');
          warned = (is_copy_mode \<and> (input_ext, output_ext) \<in> set incompatible_video_combinations)
      in if is_copy_mode \<and> has_video_params
         then (Some ''libx264'', False, warned)
         else (video_codec, is_copy_mode, warned))"

definition convert_video_cmd ::
  "string \<Rightarrow> string \<Rightarrow> string \<Rightarrow> string option \<Rightarrow> string option \<Rightarrow> string option \<Rightarrow>
   string option \<Rightarrow> string option \<Rightarrow> string option \<Rightarrow> string list option" where
  "convert_video_cmd ffmpeg input_file output_file resolution video_bitrate video_codec
     audio_codec audio_bitrate frame_rate =
     (let has_video_params = (truthy resolution \<or> truthy video_bitrate \<or> truthy frame_rate);
          (vcodec, is_copy_mode, warned) =
            video_codec_plan (file_ext input_file) (file_ext output_file) video_codec
              has_video_params
      in case (vcodec, audio_codec) of
           (Some vc, Some ac) \<Rightarrow>
             Some ([ffmpeg, ''-i'', input_file] @ [''-c:v'', vc] @
                   (if \<not> is_copy_mode
                    then opt_arg ''-s'' resolution @ opt_arg ''-b:v'' video_bitrate @
                         opt_arg ''-r'' frame_rate
                    else []) @
                   [''-c:a'', ac] @
                   (if ac \<noteq> ''copy'' then opt_arg ''-b:a'' audio_bitrate else []) @
                   [''-progress'', ''pipe:2''] @ [''-y'', output_file])
         | _ \<Rightarrow> None)"

section \<open>Progress parser\<close>

text \<open>
  Durations and percentages are Python floats; they are modelled by exact rationals.
  \<^verbatim>\<open>round(x, 2)\<close> rounds to the nearest multiple of 1/100, ties to even.
\<close>

definition py_round2 :: "rat \<Rightarrow> rat" where
  "py_round2 x =
     (let y = x * 100; f = \<lfloor>y\<rfloor>; r = y - of_int f
      in of_int (if r < 1 / 2 then f else if 1 / 2 < r then f + 1
                 else if even f then f else f + 1) / 100)"

definition is_digit :: "char \<Rightarrow> bool" where
  "is_digit c = (48 \<le> (of_char c :: nat) \<and> (of_char c :: nat) \<le> 57)"

definition digit_val :: "char \<Rightarrow> nat" where
  "digit_val c = (of_char c :: nat) - 48"

text \<open>\<^verbatim>\<open>int(s)\<close> on a string of decimal digits.\<close>

definition nat_of_digits :: "string \<Rightarrow> nat" where
  "nat_of_digits s = foldl (\<lambda>acc c. 10 * acc + digit_val c) 0 s"

text \<open>
  \<^verbatim>\<open>re.search(r'out_time_ms=(\d+)', line)\<close>: the leftmost position where the key
  is followed by at least one digit; the group is the longest run of digits there.
\<close>

definition match_out_time_ms :: "string \<Rightarrow> nat option" where
  "match_out_time_ms s =
     (if take 12 s = ''out_time_ms=''
      then (let ds = takeWhile is_digit (drop 12 s)
            in if ds = [] then None else Some (nat_of_digits ds))
      else None)"

fun search_out_time_ms :: "string \<Rightarrow> nat option" where
  "search_out_time_ms [] = None"
| "search_out_time_ms (c # cs) =
     (case match_out_time_ms (c # cs) of
        Some n \<Rightarrow> Some n
      | None \<Rightarrow> search_out_time_ms cs)"

text \<open>
  \<^verbatim>\<open>re.search(r'time=(\d{2}):(\d{2}):(\d{2}(?:\.\d+)?)', line)\<close>: hours, minutes
  and seconds, the seconds already converted by \<^verbatim>\<open>float\<close>.
\<close>

definition match_time :: "string \<Rightarrow> (nat \<times> nat \<times> rat) option" where
  "match_time s =
     (if take 5 s = ''time=''
      then (case drop 5 s of
              h1 # h2 # c1 # m1 # m2 # c2 # s1 # s2 # rest \<Rightarrow>
                if is_digit h1 \<and> is_digit h2 \<and> c1 = CHR '':'' \<and> is_digit m1 \<and> is_digit m2 \<and>
                   c2 = CHR '':'' \<and> is_digit s1 \<and> is_digit s2
                then (let frac = (case rest of
                                    d # ds \<Rightarrow>
                                      if d = CHR ''.'' then takeWhile is_digit ds else []
                                  | [] \<Rightarrow> [])
                      in Some (nat_of_digits [h1, h2], nat_of_digits [m1, m2],
                               of_nat (nat_of_digits [s1, s2]) +
                               of_nat (nat_of_digits frac) / 10 ^ length frac))
                else None
            | _ \<Rightarrow> None)
      else None)"

fun search_time :: "string \<Rightarrow> (nat \<times> nat \<times> rat) option" where
  "search_time [] = None"
| "search_time (c # cs) =
     (case match_time (c # cs) of
        Some r \<Rightarrow> Some r
      | None \<Rightarrow> search_time cs)"

definition parse_progress :: "string \<Rightarrow> rat \<Rightarrow> rat option" where
  "parse_progress stderr_line duration =
     (if duration \<le> 0 then None
      else case search_out_time_ms stderr_line of
             Some microseconds \<Rightarrow>
               (let current_time = of_nat microseconds / 1000000
                in Some (py_round2 (min ((current_time / duration) * 100) 100)))
           | None \<Rightarrow>
               (case search_time stderr_line of
                  Some (hours, minutes, seconds) \<Rightarrow>
                    (let current_time = of_nat hours * 3600 + of_nat minutes * 60 + seconds
                     in Some (py_round2 (min ((current_time / duration) * 100) 100)))
                | None \<Rightarrow> None))"

section \<open>Data model\<close>

datatype task_status = PENDING | PROCESSING | COMPLETED | FAILED

datatype file_source = UPLOAD | LOCAL | OUTPUT

datatype media_type = AUDIO | VIDEO

text \<open>One entry of \<^verbatim>\<open>task_data["files"]\<close>.\<close>

record file_status =
  filename :: string
  status :: task_status
  progress :: rat
  error :: "string option"
  output_file :: "string option"
  output_size :: "nat option"

text \<open>\<^verbatim>\<open>ConvertRequest\<close>; the fields carry the prefix \<open>req_\<close>.\<close>

record convert_request =
  req_files :: "string list"
  req_source :: file_source
  req_output_format :: string
  req_resolution :: "string option"
  req_video_bitrate :: "string option"
  req_video_codec :: "string option"
  req_frame_rate :: "string option"
  req_audio_bitrate :: "string option"
  req_sample_rate :: "string option"
  req_audio_channels :: "string option"
  req_audio_codec :: "string option"
  req_volume_adjust :: "string option"

text \<open>
  One value of the \<^verbatim>\<open>tasks\<close> dictionary. \<open>source\<close> is \<open>None\<close> for a task
  dictionary without the key \<^verbatim>\<open>"source"\<close>.
\<close>

record task_data =
  task_id :: string
  total_files :: nat
  files :: "file_status list"
  overall_progress :: rat
  stopped :: bool
  paused :: bool
  source :: "file_source option"

text \<open>
  A handle of an external encoder process as the registry holds it: its exit status if it
  has one, and the message of the exception that \<^verbatim>\<open>terminate()\<close> raises, if any.
\<close>

record process =
  pid :: nat
  returncode :: "int option"
  terminate_error :: "string option"

record batch_convert_response =
  resp_task_id :: string
  resp_total_files :: nat
  resp_files :: "file_status list"
  resp_overall_progress :: rat

text \<open>
  The shared mutable state: the task table, the process registry
  \<^verbatim>\<open>_ACTIVE_PROCESSES\<close>, and three records of effects on the outside: the processes
  that received a terminate signal, the commands that were spawned, and the bodies of the
  status responses that were sent.
\<close>

record system =
  tasks :: "string \<rightharpoonup> task_data"
  active_processes :: "string \<rightharpoonup> process"
  signalled :: "nat list"
  executed :: "string list list"
  served :: "batch_convert_response list"

datatype http_error = Http_404 | Http_500

section \<open>Process registry\<close>

text \<open>
  \<^verbatim>\<open>process.terminate()\<close> inside the \<^verbatim>\<open>try\<close>: \<open>Inl\<close> is the raised exception.
\<close>

definition process_terminate :: "process \<Rightarrow> system \<Rightarrow> string + system" where
  "process_terminate p s =
     (case terminate_error p of
        Some e \<Rightarrow> Inl e
      | None \<Rightarrow> Inr (s\<lparr>signalled := signalled s @ [pid p]\<rparr>))"

text \<open>
  \<^verbatim>\<open>terminate_task_processes\<close>: the \<^verbatim>\<open>except Exception\<close> clause swallows what the
  attempt raised, the \<^verbatim>\<open>finally\<close> clause deletes the entry. \<open>Inl\<close> would be an
  exception leaving the function.
\<close>

definition terminate_task_processes :: "string \<Rightarrow> system \<Rightarrow> string + system" where
  "terminate_task_processes tid s =
     (case active_processes s tid of
        None \<Rightarrow> Inr s
      | Some p \<Rightarrow>
          (let attempt = (if returncode p = None then process_terminate p s else Inr s);
               s1 = (case attempt of Inr s' \<Rightarrow> s' | Inl e \<Rightarrow> s)
           in Inr (s1\<lparr>active_processes := (active_processes s1)(tid := None)\<rparr>)))"

text \<open>\<^verbatim>\<open>if task_id: _ACTIVE_PROCESSES[task_id] = process\<close>\<close>

fun register :: "string option \<Rightarrow> process \<Rightarrow> system \<Rightarrow> system" where
  "register None p s = s"
| "register (Some tid) p s =
     (if tid \<noteq> [] then s\<lparr>active_processes := (active_processes s)(tid \<mapsto> p)\<rparr> else s)"

text \<open>\<^verbatim>\<open>task_id and task_id in _ACTIVE_PROCESSES\<close>\<close>

fun registered :: "string option \<Rightarrow> system \<Rightarrow> bool" where
  "registered None s = False"
| "registered (Some tid) s = (tid \<noteq> [] \<and> active_processes s tid \<noteq> None)"

text \<open>\<^verbatim>\<open>if task_id and task_id in _ACTIVE_PROCESSES: del _ACTIVE_PROCESSES[task_id]\<close>\<close>

definition unregister :: "string option \<Rightarrow> system \<Rightarrow> system" where
  "unregister task_id_opt s =
     (case task_id_opt of
        None \<Rightarrow> s
      | Some tid \<Rightarrow>
          if registered task_id_opt s
          then s\<lparr>active_processes := (active_processes s)(tid := None)\<rparr> else s)"

section \<open>Request handlers on the task table\<close>

text \<open>
  \<^verbatim>\<open>sum(f["progress"] for f in files) / len(files)\<close>, rounded; \<open>None\<close> is
  \<^verbatim>\<open>ZeroDivisionError\<close>.
\<close>

definition mean_progress :: "file_status list \<Rightarrow> rat" where
  "mean_progress fs = sum_list (map progress fs) / of_nat (length fs)"

definition total_progress :: "file_status list \<Rightarrow> rat option" where
  "total_progress fs = (if fs = [] then None else Some (py_round2 (mean_progress fs)))"

definition new_file_status :: "string \<Rightarrow> file_status" where
  "new_file_status name =
     \<lparr>filename = name, status = PENDING, progress = 0, error = None, output_file = None,
      output_size = None\<rparr>"

text \<open>
  \<^verbatim>\<open>convert\<close>: a new task under the identifier that \<^verbatim>\<open>uuid4\<close> produced. The
  request is handed to the background run, which is \<open>process_batch_convert\<close> below.
\<close>

definition convert :: "convert_request \<Rightarrow> string \<Rightarrow> system \<Rightarrow> batch_convert_response \<times> system" where
  "convert request new_id s =
     (let file_statuses = map new_file_status (req_files request);
          t = \<lparr>task_id = new_id, total_files = length (req_files request),
               files = file_statuses, overall_progress = 0, stopped = False, paused = False,
               source = Some (req_source request)\<rparr>
      in (\<lparr>resp_task_id = new_id, resp_total_files = total_files t, resp_files = files t,
           resp_overall_progress = overall_progress t\<rparr>,
          s\<lparr>tasks := (tasks s)(new_id \<mapsto> t)\<rparr>))"

definition get_status :: "string \<Rightarrow> system \<Rightarrow> http_error + batch_convert_response" where
  "get_status tid s =
     (case tasks s tid of
        None \<Rightarrow> Inl Http_404
      | Some t \<Rightarrow>
          Inr \<lparr>resp_task_id = tid, resp_total_files = total_files t, resp_files = files t,
               resp_overall_progress = overall_progress t\<rparr>)"

text \<open>The body of the second loop of \<^verbatim>\<open>pause_task\<close>.\<close>

definition reset_processing :: "file_status \<Rightarrow> file_status" where
  "reset_processing f =
     (if status f = PROCESSING then f\<lparr>status := PENDING, progress := 0\<rparr> else f)"

text \<open>
  \<^verbatim>\<open>pause_task\<close>. The state is returned beside the response because the handler
  has changed it when the division raises.
\<close>

definition pause_task :: "string \<Rightarrow> system \<Rightarrow> (http_error + string) \<times> system" where
  "pause_task tid s =
     (case tasks s tid of
        None \<Rightarrow> (Inl Http_404, s)
      | Some t0 \<Rightarrow>
          (case terminate_task_processes tid s of
             Inl e \<Rightarrow> (Inl Http_500, s)
           | Inr s1 \<Rightarrow>
               (let t1 = t0\<lparr>stopped := True, paused := False\<rparr>;
                    t2 = t1\<lparr>files := map reset_processing (files t1)\<rparr>
                in case total_progress (files t2) of
                     None \<Rightarrow> (Inl Http_500, s1\<lparr>tasks := (tasks s1)(tid \<mapsto> t2)\<rparr>)
                   | Some p \<Rightarrow>
                       (Inr ''paused'',
                        s1\<lparr>tasks := (tasks s1)(tid \<mapsto> t2\<lparr>overall_progress := p\<rparr>)\<rparr>))))"

definition stop_task :: "string \<Rightarrow> system \<Rightarrow> (http_error + string) \<times> system" where
  "stop_task tid s =
     (case tasks s tid of
        None \<Rightarrow> (Inl Http_404, s)
      | Some t \<Rightarrow>
          (Inr ''stopped'', s\<lparr>tasks := (tasks s)(tid \<mapsto> t\<lparr>stopped := True, paused := False\<rparr>)\<rparr>))"

definition UPLOAD_DIR :: string where "UPLOAD_DIR = ''uploads''"
definition LOCAL_DIR :: string where "LOCAL_DIR = ''localfiles''"
definition OUTPUT_DIR :: string where "OUTPUT_DIR = ''outputs''"

text \<open>\<^verbatim>\<open>directory / name\<close> for a relative name.\<close>

definition path_join :: "string \<Rightarrow> string \<Rightarrow> string" where
  "path_join d name = d @ ''/'' @ name"

definition get_file_path :: "string \<Rightarrow> file_source \<Rightarrow> string" where
  "get_file_path name src =
     (case src of
        UPLOAD \<Rightarrow> path_join UPLOAD_DIR name
      | LOCAL \<Rightarrow> path_join LOCAL_DIR name
      | OUTPUT \<Rightarrow> path_join OUTPUT_DIR name)"

text \<open>
  The output format that \<^verbatim>\<open>resume_task\<close> infers: the extension of the first
  recorded output path, \<^verbatim>\<open>"mp4"\<close> when there is none.
\<close>

fun infer_output_format :: "file_status list \<Rightarrow> string" where
  "infer_output_format [] = ''mp4''"
| "infer_output_format (f # fs) =
     (case output_file f of
        Some path \<Rightarrow> if path \<noteq> [] then lstrip_dot (path_suffix path) else infer_output_format fs
      | None \<Rightarrow> infer_output_format fs)"

text \<open>
  The synchronisation of the file list in \<^verbatim>\<open>resume_task\<close> with the names the caller
  sent.
\<close>

definition sync_files :: "string list \<Rightarrow> file_status list \<Rightarrow> file_status list" where
  "sync_files current_filenames fs =
     (let backend_filenames = map filename fs;
          kept = filter (\<lambda>f. filename f \<in> set current_filenames) fs;
          new_filenames = filter (\<lambda>n. n \<notin> set backend_filenames) current_filenames
      in kept @ map new_file_status new_filenames)"

text \<open>
  \<^verbatim>\<open>resume_task\<close>. \<open>current_filenames\<close> is the \<^verbatim>\<open>"filenames"\<close> entry of the
  request body, \<open>path_exists\<close> answers \<^verbatim>\<open>Path.exists\<close>. \<open>Inr\<close> carries the request
  that is handed to the background run.
\<close>

definition resume_task ::
  "string \<Rightarrow> string list option \<Rightarrow> (string \<Rightarrow> bool) \<Rightarrow> system \<Rightarrow>
   (http_error + convert_request) \<times> system" where
  "resume_task tid current_filenames path_exists s =
     (case tasks s tid of
        None \<Rightarrow> (Inl Http_404, s)
      | Some t0 \<Rightarrow>
          (let t1 = (case current_filenames of
                       None \<Rightarrow> t0
                     | Some names \<Rightarrow>
                         (let fs = sync_files names (files t0)
                          in t0\<lparr>files := fs, total_files := length fs\<rparr>));
               t2 = t1\<lparr>stopped := False, paused := False\<rparr>;
               s2 = s\<lparr>tasks := (tasks s)(tid \<mapsto> t2)\<rparr>;
               src = (case source t2 of
                        Some v \<Rightarrow> Inr v
                      | None \<Rightarrow>
                          (case files t2 of
                             [] \<Rightarrow> Inl Http_500
                           | first_file # _ \<Rightarrow>
                               if path_exists (path_join UPLOAD_DIR (filename first_file))
                               then Inr UPLOAD
                               else if path_exists (path_join LOCAL_DIR (filename first_file))
                               then Inr LOCAL
                               else Inl Http_404))
           in case src of
                Inl e \<Rightarrow> (Inl e, s2)
              | Inr v \<Rightarrow>
                  (Inr \<lparr>req_files = map filename (files t2), req_source = v,
                        req_output_format = infer_output_format (files t2),
                        req_resolution = None, req_video_bitrate = None,
                        req_video_codec = Some ''libx264'', req_frame_rate = None,
                        req_audio_bitrate = None, req_sample_rate = None,
                        req_audio_channels = None, req_audio_codec = Some ''aac'',
                        req_volume_adjust = None\<rparr>, s2)))"

section \<open>Conversion runner\<close>

text \<open>
  Requests of other clients that are served while a conversion waits: every
  \<^verbatim>\<open>await\<close> of the runner lets the server run other handlers. A resume request
  starts a second run of the loop and is not among them.
\<close>

datatype request = Pause_request string | Stop_request string | Status_request string

fun serve :: "request \<Rightarrow> system \<Rightarrow> system" where
  "serve (Pause_request tid) s = snd (pause_task tid s)"
| "serve (Stop_request tid) s = snd (stop_task tid s)"
| "serve (Status_request tid) s =
     (case get_status tid s of
        Inr r \<Rightarrow> s\<lparr>served := served s @ [r]\<rparr>
      | Inl e \<Rightarrow> s)"

text \<open>
  What the outside world does during the conversion of one file: whether the input
  exists, whether creating the output directory raises, the resolved encoder or the
  message of \<^verbatim>\<open>FileNotFoundError\<close>, the probed duration, whether spawning raises
  (\<open>True\<close>: a \<^verbatim>\<open>FileNotFoundError\<close>), the handle of the spawned process, the lines of
  its diagnostic stream each with the requests served while the runner waited for it,
  the requests served while it waited for the end of the stream and the exit, the exit
  status, and the size of the output file if it can be read.
\<close>

record encoder_run =
  input_exists :: bool
  mkdir_error :: "string option"
  ffmpeg_command :: "string + string"
  file_duration :: rat
  during_spawn :: "request list"
  spawn_error :: "(bool \<times> string) option"
  spawned :: process
  stderr_lines :: "(request list \<times> string) list"
  during_exit :: "request list"
  exit_code :: int
  out_size :: "nat option"

text \<open>
  The return value of \<^verbatim>\<open>convert_file\<close>: \<^verbatim>\<open>True\<close>, \<^verbatim>\<open>None\<close>, \<^verbatim>\<open>False\<close>,
  or a raised \<^verbatim>\<open>FileNotFoundError\<close> with its message.
\<close>

datatype conv_result = Ret_True | Ret_None | Ret_False | Raised string

text \<open>
  The reading loop. A progress callback is a state transformer that may raise (\<open>None\<close>).
  \<open>Inl\<close> is the state in which the callback raised.
\<close>

fun read_stderr ::
  "(rat \<Rightarrow> system \<Rightarrow> system option) option \<Rightarrow> rat \<Rightarrow> (request list \<times> string) list \<Rightarrow>
   system \<Rightarrow> system + system" where
  "read_stderr cb d [] s = Inr s"
| "read_stderr cb d ((rs, line) # rest) s =
     (let s1 = fold serve rs s
      in case cb of
           None \<Rightarrow> read_stderr cb d rest s1
         | Some f \<Rightarrow>
             if 0 < d
             then (case parse_progress line d of
                     None \<Rightarrow> read_stderr cb d rest s1
                   | Some p \<Rightarrow>
                       (case f p s1 of
                          None \<Rightarrow> Inl s1
                        | Some s2 \<Rightarrow> read_stderr cb d rest s2))
             else read_stderr cb d rest s1)"

text \<open>
  The classification after \<^verbatim>\<open>process.wait()\<close>: the test of the registry, the
  cleanup, and the three branches on the exit status.
\<close>

definition classify_exit ::
  "string option \<Rightarrow> (rat \<Rightarrow> system \<Rightarrow> system option) option \<Rightarrow> int \<Rightarrow> system \<Rightarrow>
   conv_result \<times> system" where
  "classify_exit task_id_opt cb code s =
     (let was_terminated = (truthy task_id_opt \<and> \<not> registered task_id_opt s);
          s1 = unregister task_id_opt s
      in if code = 0
         then (case cb of
                 None \<Rightarrow> (Ret_True, s1)
               | Some f \<Rightarrow>
                   (case f 100 s1 of
                      Some s2 \<Rightarrow> (Ret_True, s2)
                    | None \<Rightarrow> (Ret_False, unregister task_id_opt s1)))
         else if was_terminated then (Ret_None, s1)
         else (Ret_False, s1))"

text \<open>
  The part that \<^verbatim>\<open>convert_audio\<close> and \<^verbatim>\<open>convert_video\<close> have in common, from
  the spawn on. The two \<^verbatim>\<open>except\<close> clauses clean the registry entry.
\<close>

definition run_encoder ::
  "string list \<Rightarrow> string option \<Rightarrow> (rat \<Rightarrow> system \<Rightarrow> system option) option \<Rightarrow>
   encoder_run \<Rightarrow> system \<Rightarrow> conv_result \<times> system" where
  "run_encoder cmd task_id_opt cb env s =
     (let s0 = fold serve (during_spawn env) s
      in case spawn_error env of
           Some (not_found, msg) \<Rightarrow>
             (if not_found then Raised msg else Ret_False, unregister task_id_opt s0)
         | None \<Rightarrow>
             (let s1 = register task_id_opt (spawned env) (s0\<lparr>executed := executed s0 @ [cmd]\<rparr>)
              in case read_stderr cb (file_duration env) (stderr_lines env) s1 of
                   Inl s2 \<Rightarrow> (Ret_False, unregister task_id_opt s2)
                 | Inr s2 \<Rightarrow>
                     classify_exit task_id_opt cb (exit_code env)
                       (fold serve (during_exit env) s2)))"

definition convert_audio ::
  "string \<Rightarrow> string \<Rightarrow> string option \<Rightarrow> string option \<Rightarrow> string option \<Rightarrow> string option \<Rightarrow>
   string option \<Rightarrow> (rat \<Rightarrow> system \<Rightarrow> system option) option \<Rightarrow> string option \<Rightarrow>
   encoder_run \<Rightarrow> system \<Rightarrow> conv_result \<times> system" where
  "convert_audio inp out bitrate sample_rate channels codec volume_adjust cb task_id_opt env s =
     (case ffmpeg_command env of
        Inl msg \<Rightarrow> (Raised msg, unregister task_id_opt s)
      | Inr ffmpeg \<Rightarrow>
          (case convert_audio_cmd ffmpeg inp out bitrate sample_rate channels codec
                  volume_adjust of
             None \<Rightarrow> (Ret_False, unregister task_id_opt s)
           | Some cmd \<Rightarrow> run_encoder cmd task_id_opt cb env s))"

definition convert_video ::
  "string \<Rightarrow> string \<Rightarrow> string option \<Rightarrow> string option \<Rightarrow> string option \<Rightarrow> string option \<Rightarrow>
   string option \<Rightarrow> string option \<Rightarrow> (rat \<Rightarrow> system \<Rightarrow> system option) option \<Rightarrow>
   string option \<Rightarrow> encoder_run \<Rightarrow> system \<Rightarrow> conv_result \<times> system" where
  "convert_video inp out res vbitrate vcodec acodec abitrate frate cb task_id_opt env s =
     (case ffmpeg_command env of
        Inl msg \<Rightarrow> (Raised msg, unregister task_id_opt s)
      | Inr ffmpeg \<Rightarrow>
          (case convert_video_cmd ffmpeg inp out res vbitrate vcodec acodec abitrate frate of
             None \<Rightarrow> (Ret_False, unregister task_id_opt s)
           | Some cmd \<Rightarrow> run_encoder cmd task_id_opt cb env s))"

definition SUPPORTED_FORMATS_audio :: "string list" where
  "SUPPORTED_FORMATS_audio = [''mp3'', ''wav'', ''aac'', ''flac'', ''ogg'', ''m4a'', ''wma'']"

definition SUPPORTED_FORMATS_video :: "string list" where
  "SUPPORTED_FORMATS_video =
     [''mp4'', ''avi'', ''mkv'', ''mov'', ''webm'', ''flv'', ''wmv'', ''mpeg'']"

definition get_media_type :: "string \<Rightarrow> media_type option" where
  "get_media_type file_path =
     (let ext = file_ext file_path
      in if ext \<in> set SUPPORTED_FORMATS_audio then Some AUDIO
         else if ext \<in> set SUPPORTED_FORMATS_video then Some VIDEO
         else None)"

definition convert_file ::
  "string \<Rightarrow> string \<Rightarrow> convert_request \<Rightarrow> (rat \<Rightarrow> system \<Rightarrow> system option) option \<Rightarrow>
   string option \<Rightarrow> encoder_run \<Rightarrow> system \<Rightarrow> conv_result \<times> system" where
  "convert_file inp out options cb task_id_opt env s =
     (case get_media_type inp of
        Some AUDIO \<Rightarrow>
          convert_audio inp out (req_audio_bitrate options) (req_sample_rate options)
            (req_audio_channels options) (req_audio_codec options) (req_volume_adjust options)
            cb task_id_opt env s
      | Some VIDEO \<Rightarrow>
          convert_video inp out (req_resolution options) (req_video_bitrate options)
            (req_video_codec options) (req_audio_codec options) (req_audio_bitrate options)
            (req_frame_rate options) cb task_id_opt env s
      | None \<Rightarrow> (Ret_False, s))"

section \<open>Batch orchestrator\<close>

text \<open>
  The closure \<^verbatim>\<open>progress_callback\<close> of the loop, for the task \<open>tid\<close> and the index
  \<open>idx\<close>. \<open>None\<close> is the exception of an index outside the list.
\<close>

definition progress_callback :: "string \<Rightarrow> nat \<Rightarrow> rat \<Rightarrow> system \<Rightarrow> system option" where
  "progress_callback tid idx p s =
     (case tasks s tid of
        None \<Rightarrow> None
      | Some t \<Rightarrow>
          if idx < length (files t)
          then (let fs = (files t)[idx := (files t ! idx)\<lparr>progress := p\<rparr>]
                in Some (s\<lparr>tasks := (tasks s)(tid \<mapsto>
                            t\<lparr>files := fs, overall_progress := py_round2 (mean_progress fs)\<rparr>)\<rparr>))
          else None)"

text \<open>
  An assignment to fields of \<^verbatim>\<open>task_data["files"][idx]\<close>; the loop reaches it only
  with an existing task and an index inside the list.
\<close>

definition set_file :: "string \<Rightarrow> nat \<Rightarrow> (file_status \<Rightarrow> file_status) \<Rightarrow> system \<Rightarrow> system" where
  "set_file tid idx g s =
     (case tasks s tid of
        None \<Rightarrow> s
      | Some t \<Rightarrow>
          if idx < length (files t)
          then s\<lparr>tasks := (tasks s)(tid \<mapsto> t\<lparr>files := (files t)[idx := g (files t ! idx)]\<rparr>)\<rparr>
          else s)"

text \<open>The fixed message of a failed conversion and the message of a missing input,
  as UTF-8 bytes.\<close>

definition conversion_failed_msg :: string where
  "conversion_failed_msg =
     [CHR 0xE8, CHR 0xBD, CHR 0xAC, CHR 0xE6, CHR 0x8D, CHR 0xA2, CHR 0xE5, CHR 0xA4,
      CHR 0xB1, CHR 0xE8, CHR 0xB4, CHR 0xA5]"

definition file_missing_msg :: "string \<Rightarrow> string" where
  "file_missing_msg name =
     [CHR 0xE6, CHR 0x96, CHR 0x87, CHR 0xE4, CHR 0xBB, CHR 0xB6, CHR 0xE4, CHR 0xB8,
      CHR 0x8D, CHR 0xE5, CHR 0xAD, CHR 0x98, CHR 0xE5, CHR 0x9C, CHR 0xA8, CHR 0x3A,
      CHR 0x20] @ name"

text \<open>\<^verbatim>\<open>Path(p).stem\<close> and \<^verbatim>\<open>Path(p).parent\<close> of a relative path.\<close>

definition path_stem :: "string \<Rightarrow> string" where
  "path_stem p = (let name = path_name p in take (length name - length (path_suffix p)) name)"

definition path_parent :: "string \<Rightarrow> string" where
  "path_parent p =
     (let n = length (path_name p)
      in if n = length p then ''.'' else take (length p - n - 1) p)"

definition output_path_of :: "string \<Rightarrow> string \<Rightarrow> string" where
  "output_path_of name fmt =
     (let output_filename = path_stem name @ ''.'' @ fmt
      in if path_parent name \<noteq> ''.''
         then path_join (path_join OUTPUT_DIR (path_parent name)) output_filename
         else path_join OUTPUT_DIR output_filename)"

definition mark_failed :: "string \<Rightarrow> nat \<Rightarrow> string \<Rightarrow> system \<Rightarrow> system" where
  "mark_failed tid idx msg s = set_file tid idx (\<lambda>f. f\<lparr>status := FAILED, error := Some msg\<rparr>) s"

text \<open>
  The inner \<^verbatim>\<open>try\<close> of the loop for one file. The flag is \<open>True\<close> when the loop is
  left by \<^verbatim>\<open>break\<close>.
\<close>

definition process_file ::
  "string \<Rightarrow> convert_request \<Rightarrow> nat \<Rightarrow> string \<Rightarrow> encoder_run \<Rightarrow> system \<Rightarrow> bool \<times> system" where
  "process_file tid request idx name env s =
     (let s1 = set_file tid idx (\<lambda>f. f\<lparr>status := PROCESSING, progress := 0\<rparr>) s;
          input_path = get_file_path name (req_source request)
      in if \<not> input_exists env then (False, mark_failed tid idx (file_missing_msg name) s1)
         else case (if path_parent name \<noteq> ''.'' then mkdir_error env else None) of
                Some msg \<Rightarrow> (False, mark_failed tid idx msg s1)
              | None \<Rightarrow>
                  (let output_path = output_path_of name (req_output_format request)
                   in case convert_file input_path output_path request
                             (Some (progress_callback tid idx)) (Some tid) env s1 of
                        (Ret_True, s2) \<Rightarrow>
                          (False,
                           set_file tid idx
                             (\<lambda>f. f\<lparr>status := COMPLETED, progress := 100,
                                    output_file := Some output_path,
                                    output_size := (case out_size env of
                                                      Some n \<Rightarrow> Some n
                                                    | None \<Rightarrow> output_size f)\<rparr>) s2)
                      | (Ret_None, s2) \<Rightarrow>
                          (True, set_file tid idx (\<lambda>f. f\<lparr>status := PENDING, progress := 0\<rparr>) s2)
                      | (Ret_False, s2) \<Rightarrow> (False, mark_failed tid idx conversion_failed_msg s2)
                      | (Raised msg, s2) \<Rightarrow> (False, mark_failed tid idx msg s2)))"

text \<open>
  The \<^verbatim>\<open>for\<close> loop of \<^verbatim>\<open>process_batch_convert\<close> from index \<open>idx\<close> on. \<open>envs\<close>
  gives the outside world of each index. The flag is \<open>True\<close> when an exception left the
  loop (a missing task, an index outside the list).
\<close>

fun drive ::
  "string \<Rightarrow> convert_request \<Rightarrow> (nat \<Rightarrow> encoder_run) \<Rightarrow> nat \<Rightarrow> string list \<Rightarrow> system \<Rightarrow>
   bool \<times> system" where
  "drive tid request envs idx [] s = (False, s)"
| "drive tid request envs idx (name # rest) s =
     (case tasks s tid of
        None \<Rightarrow> (True, s)
      | Some t \<Rightarrow>
          if stopped t then (False, s)
          else if length (files t) \<le> idx then (True, s)
          else if status (files t ! idx) = COMPLETED
          then drive tid request envs (Suc idx) rest s
          else (case process_file tid request idx name (envs idx) s of
                  (True, s1) \<Rightarrow> (False, s1)
                | (False, s1) \<Rightarrow> drive tid request envs (Suc idx) rest s1))"

text \<open>
  \<^verbatim>\<open>process_batch_convert\<close>: the outer \<^verbatim>\<open>except\<close> clause ends the run without
  the final recomputation.
\<close>

definition process_batch_convert ::
  "string \<Rightarrow> convert_request \<Rightarrow> (nat \<Rightarrow> encoder_run) \<Rightarrow> system \<Rightarrow> system" where
  "process_batch_convert tid request envs s =
     (case tasks s tid of
        None \<Rightarrow> s
      | Some t \<Rightarrow>
          (let s0 = s\<lparr>tasks := (tasks s)(tid \<mapsto> t\<lparr>stopped := False\<rparr>)\<rparr>
           in case drive tid request envs 0 (req_files request) s0 of
                (True, s1) \<Rightarrow> s1
              | (False, s1) \<Rightarrow>
                  (case tasks s1 tid of
                     None \<Rightarrow> s1
                   | Some t1 \<Rightarrow>
                       (case total_progress (files t1) of
                          None \<Rightarrow> s1
                        | Some p \<Rightarrow>
                            s1\<lparr>tasks := (tasks s1)(tid \<mapsto> t1\<lparr>overall_progress := p\<rparr>)\<rparr>))))"

section \<open>Auxiliary notions\<close>

text \<open>All requests that are served during the conversion of one file, in order.\<close>

definition run_requests :: "encoder_run \<Rightarrow> request list" where
  "run_requests env = during_spawn env @ concat (map fst (stderr_lines env)) @ during_exit env"

text \<open>
  The requests served after the process has been registered: while the runner reads the
  diagnostic stream and while it waits for the exit.
\<close>

definition post_spawn_requests :: "encoder_run \<Rightarrow> request list" where
  "post_spawn_requests env = concat (map fst (stderr_lines env)) @ during_exit env"

text \<open>
  What stays true of the task \<open>tid\<close> while its file \<open>idx\<close> is converted, \<open>t0\<close> being the
  task when the conversion starts and \<open>h\<close> the requests served so far: the task exists
  with as many files; the stop flag is set once it was set or a stop or pause request
  for the task was served; and as long as no pause request for the task was served, every
  other file is as it was.
\<close>

definition run_state :: "string \<Rightarrow> nat \<Rightarrow> task_data \<Rightarrow> request list \<Rightarrow> system \<Rightarrow> bool" where
  "run_state tid idx t0 h s =
     (\<exists>t. tasks s tid = Some t \<and> length (files t) = length (files t0)
         \<and> (stopped t0 \<or> Stop_request tid \<in> set h \<or> Pause_request tid \<in> set h \<longrightarrow> stopped t)
         \<and> (Pause_request tid \<notin> set h \<longrightarrow>
              (\<forall>j < length (files t0). j \<noteq> idx \<longrightarrow> files t ! j = files t0 ! j)))"





section \<open>Example values\<close>

text \<open>
  A registered process that still runs and one that has exited and whose termination
  raises; file records, a task \<^verbatim>\<open>t\<close> and a system holding only that task; a request
  with the default codecs; and the outside world of a conversion given by the requests
  served while spawning, the lines of the stream, the requests served at the exit and
  the exit status.
\<close>

definition ex_proc :: process where
  "ex_proc = \<lparr>pid = 7, returncode = None, terminate_error = None\<rparr>"

definition ex_dead_proc :: process where
  "ex_dead_proc = \<lparr>pid = 8, returncode = Some 0, terminate_error = Some ''gone''\<rparr>"

definition ex_file :: "string \<Rightarrow> task_status \<Rightarrow> rat \<Rightarrow> file_status" where
  "ex_file name st p = (new_file_status name)\<lparr>status := st, progress := p\<rparr>"

definition ex_task :: "file_status list \<Rightarrow> task_data" where
  "ex_task fs = \<lparr>task_id = ''t'', total_files = length fs, files = fs, overall_progress = 0,
     stopped = False, paused = False, source = Some UPLOAD\<rparr>"

definition ex_system :: "file_status list \<Rightarrow> process option \<Rightarrow> system" where
  "ex_system fs p = \<lparr>tasks = [''t'' \<mapsto> ex_task fs], active_processes = (\<lambda>k. if k = ''t'' then p else None),
     signalled = [], executed = [], served = []\<rparr>"

definition ex_request :: "string list \<Rightarrow> string \<Rightarrow> convert_request" where
  "ex_request names fmt =
     \<lparr>req_files = names, req_source = UPLOAD, req_output_format = fmt,
      req_resolution = None, req_video_bitrate = None, req_video_codec = Some ''libx264'',
      req_frame_rate = None, req_audio_bitrate = None, req_sample_rate = None,
      req_audio_channels = None, req_audio_codec = Some ''aac'', req_volume_adjust = None\<rparr>"

definition ex_env :: "request list \<Rightarrow> (request list \<times> string) list \<Rightarrow> request list \<Rightarrow> int \<Rightarrow> encoder_run" where
  "ex_env rs0 ls rs1 code =
     \<lparr>input_exists = True, mkdir_error = None, ffmpeg_command = Inr ''ffmpeg'',
      file_duration = 10, during_spawn = rs0, spawn_error = None, spawned = ex_proc,
      stderr_lines = ls, during_exit = rs1, exit_code = code, out_size = Some 1000\<rparr>"

definition ex_envs :: "encoder_run \<Rightarrow> nat \<Rightarrow> encoder_run" where
  "ex_envs env i = env"

definition ex_empty :: system where
  "ex_empty = \<lparr>tasks = Map.empty, active_processes = Map.empty, signalled = [], executed = [],
     served = []\<rparr>"

definition ex_no_paths :: "string \<Rightarrow> bool" where
  "ex_no_paths p = False"

definition ex_pause_files :: "file_status list" where
  "ex_pause_files =
     [ex_file ''a.wav'' COMPLETED 100, ex_file ''b.wav'' PROCESSING 50, ex_file ''c.wav'' PENDING 0]"

definition ex_envs2 :: "encoder_run \<Rightarrow> encoder_run \<Rightarrow> nat \<Rightarrow> encoder_run" where
  "ex_envs2 e0 e1 i = (if i = 0 then e0 else e1)"

definition ex_two_files :: "file_status list" where
  "ex_two_files = [ex_file ''a.wav'' PENDING 0, ex_file ''b.wav'' PENDING 0]"

definition ex_stop_env :: encoder_run where
  "ex_stop_env = ex_env [] [([Stop_request ''t''], ''out_time_ms=5000000'')] [] 0"

definition ex_fail_env :: encoder_run where
  "ex_fail_env = ex_env [] [([], ''boom'')] [] 1"

text \<open>
  A batch of two files is submitted to the empty system and driven: the first file
  succeeds, the second is interrupted by a pause. Then the caller resumes with only the
  first name.
\<close>

definition ex_after_run :: system where
  "ex_after_run =
     process_batch_convert ''t'' (ex_request [''a.wav'', ''b.wav''] ''mp3'')
       (ex_envs2 (ex_env [] [] [] 0) (ex_env [] [] [Pause_request ''t''] 255))
       (snd (convert (ex_request [''a.wav'', ''b.wav''] ''mp3'') ''t'' ex_empty))"


section \<open>Evaluation rules\<close>

lemmas path_defs = file_ext_def path_suffix_def path_name_def lstrip_dot_def lower_def lower_char_def

lemma py_round2_0: "py_round2 0 = 0"
  by (simp add: py_round2_def)

lemma py_round2_numeral: "py_round2 (numeral k) = numeral k"
  by (simp add: py_round2_def)



lemmas parse_defs = parse_progress_def match_out_time_ms_def match_time_def is_digit_def
  nat_of_digits_def digit_val_def py_round2_0 py_round2_numeral

lemmas ex_defs = ex_request_def ex_env_def ex_envs_def ex_system_def ex_task_def ex_file_def
  ex_proc_def ex_dead_proc_def new_file_status_def

lemmas run_defs = process_batch_convert_def process_file_def set_file_def mark_failed_def
  convert_file_def convert_audio_def convert_video_def run_encoder_def classify_exit_def
  unregister_def progress_callback_def total_progress_def mean_progress_def
  get_media_type_def get_file_path_def path_join_def UPLOAD_DIR_def LOCAL_DIR_def OUTPUT_DIR_def
  output_path_of_def path_stem_def path_parent_def SUPPORTED_FORMATS_audio_def
  SUPPORTED_FORMATS_video_def convert_audio_cmd_def audio_codec_plan_def
  convert_video_cmd_def video_codec_plan_def incompatible_combinations_def
  incompatible_video_combinations_def

lemmas handler_defs = pause_task_def stop_task_def get_status_def terminate_task_processes_def
  process_terminate_def reset_processing_def

lemmas eval_defs = run_defs ex_defs path_defs parse_defs handler_defs post_spawn_requests_def
  run_requests_def conversion_failed_msg_def

lemmas eval_defs2 = eval_defs ex_envs2_def ex_two_files_def ex_stop_env_def ex_fail_env_def
  ex_empty_def convert_def resume_task_def sync_files_def ex_pause_files_def ex_no_paths_def

section \<open>The progress parser\<close>

lemma py_round2_range:
  assumes "0 \<le> x" and "x \<le> 100"
  shows "0 \<le> py_round2 x \<and> py_round2 x \<le> 100"
proof -
  define y where "y = x * 100"
  define f where "f = \<lfloor>y\<rfloor>"
  have y: "0 \<le> y" "y \<le> 10000" using assms by (simp_all add: y_def)
  have f0: "0 \<le> f" using y by (simp add: f_def)
  have f1: "f \<le> 10000" using y unfolding f_def by (simp add: floor_le_iff)
  have f2: "f + 1 \<le> 10000" if "of_int f < y"
  proof -
    from that y have "(of_int f :: rat) < of_int 10000" by simp
    then have "f < 10000" by (simp only: of_int_less_iff)
    then show ?thesis by simp
  qed
  have lo: "y - of_int f < 1 / 2 \<or> of_int f < y" by linarith
  have r: "py_round2 x = of_int f / 100 \<or> (of_int f < y \<and> py_round2 x = of_int (f + 1) / 100)"
    unfolding py_round2_def Let_def y_def[symmetric] f_def[symmetric]
    using lo by auto
  from r show ?thesis
  proof
    assume "py_round2 x = of_int f / 100"
    then show ?thesis using f0 f1 by simp
  next
    assume a: "of_int f < y \<and> py_round2 x = of_int (f + 1) / 100"
    then have "f + 1 \<le> 10000" using f2 by simp
    then have "(of_int (f + 1) :: rat) \<le> of_int 10000" by (simp only: of_int_le_iff)
    moreover have "(0::rat) \<le> of_int (f + 1)" using f0 by simp
    ultimately show ?thesis using a by simp
  qed
qed

lemma match_time_nonneg: "match_time s = Some (h, m, sec) \<Longrightarrow> 0 \<le> sec"
  unfolding match_time_def Let_def
  by (auto split: if_splits list.splits)

lemma search_time_nonneg: "search_time s = Some (h, m, sec) \<Longrightarrow> 0 \<le> sec"
  by (induction s) (auto split: option.splits dest: match_time_nonneg)

lemma parse_progress_range:
  assumes "parse_progress line d = Some p"
  shows "0 \<le> p \<and> p \<le> 100"
proof -
  from assms have d: "0 < d"
    by (cases "d \<le> 0") (simp_all add: parse_progress_def)
  have "\<exists>t. 0 \<le> t \<and> p = py_round2 (min ((t / d) * 100) 100)"
  proof (cases "search_out_time_ms line")
    case (Some us)
    with assms d have "p = py_round2 (min ((of_nat us / 1000000 / d) * 100) 100)"
      by (simp add: parse_progress_def Let_def del: times_divide_eq_left times_divide_eq_right divide_divide_eq_left)
    moreover have "(0::rat) \<le> of_nat us / 1000000" by simp
    ultimately show ?thesis by blast
  next
    case None
    with assms d obtain h m sec where st: "search_time line = Some (h, m, sec)"
      by (cases "search_time line") (auto simp: parse_progress_def)
    with assms d None
    have "p = py_round2 (min (((of_nat h * 3600 + of_nat m * 60 + sec) / d) * 100) 100)"
      by (simp add: parse_progress_def Let_def del: times_divide_eq_left times_divide_eq_right divide_divide_eq_left)
    moreover have "0 \<le> of_nat h * 3600 + of_nat m * 60 + sec"
      using search_time_nonneg [OF st] by simp
    ultimately show ?thesis by blast
  qed
  then obtain t where t: "0 \<le> t" and p: "p = py_round2 (min ((t / d) * 100) 100)" by blast
  have "0 \<le> min ((t / d) * 100) 100" using t d by simp
  then show ?thesis unfolding p by (intro py_round2_range) simp_all
qed







section \<open>The command builder\<close>

text \<open>
  Claim C3. An audio conversion that asks for the codec \<^verbatim>\<open>copy\<close> from a
  \<^verbatim>\<open>wma\<close> source to an \<^verbatim>\<open>mp3\<close> target is re-encoded with
  \<^verbatim>\<open>libmp3lame\<close>: without any extra audio parameter the command carries that codec
  and no audio parameter, and with a bitrate the command carries the codec followed by
  the bitrate argument.
\<close>

theorem C3_audio_copy_wma_mp3:
  assumes "file_ext inp = ''wma''" and "file_ext out = ''mp3''"
  shows "(\<not> truthy bitrate \<and> \<not> truthy sample_rate \<and> \<not> truthy channels \<and> \<not> truthy volume_adjust \<longrightarrow>
          convert_audio_cmd ffmpeg inp out bitrate sample_rate channels
            (Some ''copy'') volume_adjust =
          Some [ffmpeg, ''-i'', inp, ''-c:a'', ''libmp3lame'', ''-progress'', ''pipe:2'',
                ''-y'', out])
       \<and> (\<forall>b. bitrate = Some b \<and> b \<noteq> [] \<longrightarrow>
          (\<exists>tail. convert_audio_cmd ffmpeg inp out bitrate sample_rate channels
            (Some ''copy'') volume_adjust =
          Some ([ffmpeg, ''-i'', inp, ''-c:a'', ''libmp3lame'', ''-b:a'', b] @ tail)))
       \<and> audio_codec_plan (file_ext inp) (file_ext out) (Some ''copy'') hp =
           (Some ''libmp3lame'', False)"
  using assms
  by (cases bitrate; cases sample_rate; cases channels; cases volume_adjust)
     (simp_all add: convert_audio_cmd_def audio_codec_plan_def incompatible_combinations_def Let_def)

theorem C3_audio_copy_wma_mp3_witness:
  "file_ext ''in/song.wma'' = ''wma'' \<and> file_ext ''out/song.mp3'' = ''mp3''
   \<and> convert_audio_cmd ''ffmpeg'' ''in/song.wma'' ''out/song.mp3'' None None None (Some ''copy'') None =
       Some [''ffmpeg'', ''-i'', ''in/song.wma'', ''-c:a'', ''libmp3lame'', ''-progress'', ''pipe:2'',
             ''-y'', ''out/song.mp3'']
   \<and> convert_audio_cmd ''ffmpeg'' ''in/song.wma'' ''out/song.mp3'' (Some ''192k'') None None (Some ''copy'') None =
       Some [''ffmpeg'', ''-i'', ''in/song.wma'', ''-c:a'', ''libmp3lame'', ''-b:a'', ''192k'',
             ''-progress'', ''pipe:2'', ''-y'', ''out/song.mp3'']"
proof -
  have e: "file_ext ''in/song.wma'' = ''wma''" "file_ext ''out/song.mp3'' = ''mp3''"
    by (simp_all add: path_defs Let_def)
  have a: "convert_audio_cmd ''ffmpeg'' ''in/song.wma'' ''out/song.mp3'' None None None (Some ''copy'') None =
       Some [''ffmpeg'', ''-i'', ''in/song.wma'', ''-c:a'', ''libmp3lame'', ''-progress'', ''pipe:2'',
             ''-y'', ''out/song.mp3'']"
    using C3_audio_copy_wma_mp3 [OF e, of None None None None "''ffmpeg''"] by simp
  obtain tail where b: "convert_audio_cmd ''ffmpeg'' ''in/song.wma'' ''out/song.mp3'' (Some ''192k'') None None (Some ''copy'') None =
       Some ([''ffmpeg'', ''-i'', ''in/song.wma'', ''-c:a'', ''libmp3lame'', ''-b:a'', ''192k''] @ tail)"
    using C3_audio_copy_wma_mp3 [OF e, of "Some ''192k''" None None None "''ffmpeg''"] by auto
  have "convert_audio_cmd ''ffmpeg'' ''in/song.wma'' ''out/song.mp3'' (Some ''192k'') None None (Some ''copy'') None =
       Some [''ffmpeg'', ''-i'', ''in/song.wma'', ''-c:a'', ''libmp3lame'', ''-b:a'', ''192k'',
             ''-progress'', ''pipe:2'', ''-y'', ''out/song.mp3'']"
    using e by (simp add: convert_audio_cmd_def audio_codec_plan_def incompatible_combinations_def Let_def)
  with e a b show ?thesis by simp
qed

text \<open>
  Claim C4. A video conversion that asks for the video codec \<^verbatim>\<open>copy\<close> from an
  \<^verbatim>\<open>avi\<close> source to an \<^verbatim>\<open>mp4\<close> target keeps \<^verbatim>\<open>copy\<close> when no
  resolution, video bitrate or frame rate is given (the pair only raises the warning);
  with a frame rate the codec becomes \<^verbatim>\<open>libx264\<close> and the frame-rate argument is
  part of the command.
\<close>

theorem C4_video_copy_avi_mp4:
  assumes "file_ext inp = ''avi''" and "file_ext out = ''mp4''"
  shows "(\<not> truthy resolution \<and> \<not> truthy video_bitrate \<and> \<not> truthy frame_rate \<longrightarrow>
          video_codec_plan (file_ext inp) (file_ext out) (Some ''copy'') False =
            (Some ''copy'', True, True)
          \<and> (\<forall>ac. audio_codec = Some ac \<longrightarrow>
               convert_video_cmd ffmpeg inp out resolution video_bitrate
                 (Some ''copy'') audio_codec audio_bitrate frame_rate =
               Some ([ffmpeg, ''-i'', inp, ''-c:v'', ''copy'', ''-c:a'', ac] @
                     (if ac \<noteq> ''copy'' then opt_arg ''-b:a'' audio_bitrate else []) @
                     [''-progress'', ''pipe:2'', ''-y'', out])))
       \<and> (\<forall>fr ac. frame_rate = Some fr \<and> fr \<noteq> [] \<and> audio_codec = Some ac \<longrightarrow>
            convert_video_cmd ffmpeg inp out resolution video_bitrate
              (Some ''copy'') audio_codec audio_bitrate frame_rate =
            Some ([ffmpeg, ''-i'', inp, ''-c:v'', ''libx264''] @
                  opt_arg ''-s'' resolution @ opt_arg ''-b:v'' video_bitrate @ [''-r'', fr] @
                  [''-c:a'', ac] @
                  (if ac \<noteq> ''copy'' then opt_arg ''-b:a'' audio_bitrate else []) @
                  [''-progress'', ''pipe:2'', ''-y'', out]))"
  using assms
  by (cases resolution; cases video_bitrate; cases frame_rate)
     (auto simp add: convert_video_cmd_def video_codec_plan_def
        incompatible_video_combinations_def Let_def)

theorem C4_video_copy_avi_mp4_witness:
  "file_ext ''clip.avi'' = ''avi'' \<and> file_ext ''clip.mp4'' = ''mp4''
   \<and> convert_video_cmd ''ffmpeg'' ''clip.avi'' ''clip.mp4'' None None (Some ''copy'') (Some ''aac'') None None =
       Some [''ffmpeg'', ''-i'', ''clip.avi'', ''-c:v'', ''copy'', ''-c:a'', ''aac'',
             ''-progress'', ''pipe:2'', ''-y'', ''clip.mp4'']
   \<and> convert_video_cmd ''ffmpeg'' ''clip.avi'' ''clip.mp4'' None None (Some ''copy'') (Some ''aac'') None (Some ''30'') =
       Some [''ffmpeg'', ''-i'', ''clip.avi'', ''-c:v'', ''libx264'', ''-r'', ''30'', ''-c:a'', ''aac'',
             ''-progress'', ''pipe:2'', ''-y'', ''clip.mp4'']"
proof -
  have e: "file_ext ''clip.avi'' = ''avi''" "file_ext ''clip.mp4'' = ''mp4''"
    by (simp_all add: path_defs Let_def)
  show ?thesis
    using e C4_video_copy_avi_mp4 [OF e, of None None None "Some ''aac''" "''ffmpeg''" None]
      C4_video_copy_avi_mp4 [OF e, of None None "Some ''30''" "Some ''aac''" "''ffmpeg''" None]
    by simp
qed

section \<open>The process registry\<close>

lemma terminate_task_processes_result:
  "\<exists>s'. terminate_task_processes tid s = Inr s' \<and> tasks s' = tasks s \<and> served s' = served s
        \<and> executed s' = executed s
        \<and> active_processes s' = (active_processes s)(tid := None)
        \<and> signalled s' =
            (case active_processes s tid of
               None \<Rightarrow> signalled s
             | Some p \<Rightarrow> if returncode p = None \<and> terminate_error p = None
                         then signalled s @ [pid p] else signalled s)"
  by (cases "active_processes s tid")
     (auto simp: terminate_task_processes_def process_terminate_def Let_def fun_eq_iff
           split: option.splits)

text \<open>
  Claim C10. \<^verbatim>\<open>terminate_task_processes\<close> always returns: for a task identifier that
  is not registered the state is unchanged; for a registered one the entry is gone
  afterwards, whether the process had exited or its termination raised, and the other
  entries and the task table are as before.
\<close>

theorem C10_terminate_task_processes_total:
  "(active_processes s tid = None \<longrightarrow> terminate_task_processes tid s = Inr s)
   \<and> (\<forall>p. active_processes s tid = Some p \<longrightarrow>
         (\<exists>s'. terminate_task_processes tid s = Inr s' \<and> active_processes s' tid = None
               \<and> (\<forall>other. other \<noteq> tid \<longrightarrow> active_processes s' other = active_processes s other)
               \<and> tasks s' = tasks s))"
proof (intro conjI allI impI)
  assume "active_processes s tid = None"
  then show "terminate_task_processes tid s = Inr s"
    by (simp add: terminate_task_processes_def)
next
  fix p assume "active_processes s tid = Some p"
  obtain s' where "terminate_task_processes tid s = Inr s'" "tasks s' = tasks s"
      "active_processes s' = (active_processes s)(tid := None)"
    using terminate_task_processes_result [of tid s] by blast
  then show "\<exists>s'. terminate_task_processes tid s = Inr s' \<and> active_processes s' tid = None
               \<and> (\<forall>other. other \<noteq> tid \<longrightarrow> active_processes s' other = active_processes s other)
               \<and> tasks s' = tasks s"
    by auto
qed

theorem C10_terminate_task_processes_total_witness:
  "active_processes (ex_system [] None) ''t'' = None
   \<and> terminate_task_processes ''t'' (ex_system [] None) = Inr (ex_system [] None)
   \<and> active_processes (ex_system [] (Some ex_dead_proc)) ''t'' = Some ex_dead_proc
   \<and> (\<exists>s'. terminate_task_processes ''t'' (ex_system [] (Some ex_dead_proc)) = Inr s'
           \<and> active_processes s' ''t'' = None)"
proof -
  have a: "active_processes (ex_system [] None) ''t'' = None"
    and b: "active_processes (ex_system [] (Some ex_dead_proc)) ''t'' = Some ex_dead_proc"
    by (simp_all add: ex_system_def)
  from C10_terminate_task_processes_total [of "ex_system [] None" "''t''"] a
  have "terminate_task_processes ''t'' (ex_system [] None) = Inr (ex_system [] None)" by blast
  moreover from C10_terminate_task_processes_total [of "ex_system [] (Some ex_dead_proc)" "''t''"] b
  have "\<exists>s'. terminate_task_processes ''t'' (ex_system [] (Some ex_dead_proc)) = Inr s'
           \<and> active_processes s' ''t'' = None" by blast
  ultimately show ?thesis using a b by blast
qed

section \<open>Pause\<close>


lemma pause_task_result:
  assumes "tasks s tid = Some t"
  shows "\<exists>s1. terminate_task_processes tid s = Inr s1 \<and>
     pause_task tid s =
       (case total_progress (map reset_processing (files t)) of
          None \<Rightarrow> (Inl Http_500,
                   s1\<lparr>tasks := (tasks s)(tid \<mapsto> t\<lparr>stopped := True, paused := False,
                                               files := map reset_processing (files t)\<rparr>)\<rparr>)
        | Some p \<Rightarrow> (Inr ''paused'',
                     s1\<lparr>tasks := (tasks s)(tid \<mapsto> t\<lparr>stopped := True, paused := False,
                                               files := map reset_processing (files t),
                                               overall_progress := p\<rparr>)\<rparr>))"
proof -
  obtain s1 where s1: "terminate_task_processes tid s = Inr s1" "tasks s1 = tasks s"
    using terminate_task_processes_result [of tid s] by blast
  show ?thesis using assms s1
    by (auto simp: pause_task_def Let_def split: option.splits)
qed




section \<open>Resume\<close>

lemma infer_output_format_find:
  "infer_output_format fs =
     (case find (\<lambda>f. truthy (output_file f)) fs of
        None \<Rightarrow> ''mp4''
      | Some f \<Rightarrow> (case output_file f of Some p \<Rightarrow> lstrip_dot (path_suffix p) | None \<Rightarrow> ''mp4''))"
  by (induction fs) (auto split: option.splits)

lemma infer_output_format_fresh:
  "infer_output_format (map new_file_status names) = ''mp4''"
  by (induction names) (simp_all add: new_file_status_def)

text \<open>
  Claim C8, amended. For an existing task that records its source tag, resume hands the
  background run a request with that source tag and the names of the (synchronised) file
  list; its output format is the extension of the first recorded output path and
  \<^verbatim>\<open>mp4\<close> when no file has one. In particular a task resumed right after its
  submission gets the format \<^verbatim>\<open>mp4\<close>, whatever format was submitted.
\<close>

theorem C8_resume_amended:
  "(\<forall>t src. tasks s tid = Some t \<and> source t = Some src \<longrightarrow>
      (\<exists>rq s' t'. resume_task tid names pe s = (Inr rq, s')
         \<and> tasks s' tid = Some t' \<and> source t' = Some src \<and> \<not> stopped t'
         \<and> files t' = (case names of None \<Rightarrow> files t | Some ns \<Rightarrow> sync_files ns (files t))
         \<and> req_source rq = src
         \<and> req_files rq = map filename (files t')
         \<and> req_output_format rq =
             (case find (\<lambda>f. truthy (output_file f)) (files t') of
                None \<Rightarrow> ''mp4''
              | Some f \<Rightarrow> (case output_file f of
                             Some p \<Rightarrow> lstrip_dot (path_suffix p) | None \<Rightarrow> ''mp4''))))
   \<and> (\<exists>t0. tasks (snd (convert rq0 tid s0)) tid = Some t0
         \<and> source t0 = Some (req_source rq0)
         \<and> (\<exists>rq s'. resume_task tid None pe (snd (convert rq0 tid s0)) = (Inr rq, s')
               \<and> req_source rq = req_source rq0 \<and> req_files rq = req_files rq0
               \<and> req_output_format rq = ''mp4''))"
proof (intro conjI allI impI)
  fix t src assume a: "tasks s tid = Some t \<and> source t = Some src"
  show "\<exists>rq s' t'. resume_task tid names pe s = (Inr rq, s')
         \<and> tasks s' tid = Some t' \<and> source t' = Some src \<and> \<not> stopped t'
         \<and> files t' = (case names of None \<Rightarrow> files t | Some ns \<Rightarrow> sync_files ns (files t))
         \<and> req_source rq = src
         \<and> req_files rq = map filename (files t')
         \<and> req_output_format rq =
             (case find (\<lambda>f. truthy (output_file f)) (files t') of
                None \<Rightarrow> ''mp4''
              | Some f \<Rightarrow> (case output_file f of
                             Some p \<Rightarrow> lstrip_dot (path_suffix p) | None \<Rightarrow> ''mp4''))"
    using a by (cases names) (simp_all add: resume_task_def Let_def infer_output_format_find)
next
  show "\<exists>t0. tasks (snd (convert rq0 tid s0)) tid = Some t0
         \<and> source t0 = Some (req_source rq0)
         \<and> (\<exists>rq s'. resume_task tid None pe (snd (convert rq0 tid s0)) = (Inr rq, s')
               \<and> req_source rq = req_source rq0 \<and> req_files rq = req_files rq0
               \<and> req_output_format rq = ''mp4'')"
    by (simp add: convert_def resume_task_def Let_def infer_output_format_fresh comp_def
        new_file_status_def)
qed

theorem C8_resume_amended_witness:
  "tasks (ex_system [(ex_file ''a.wav'' COMPLETED 100)\<lparr>output_file := Some ''outputs/a.mp3''\<rparr>,
                      ex_file ''b.wav'' PENDING 0] None) ''t''
     = Some (ex_task [(ex_file ''a.wav'' COMPLETED 100)\<lparr>output_file := Some ''outputs/a.mp3''\<rparr>,
                      ex_file ''b.wav'' PENDING 0])
   \<and> source (ex_task [(ex_file ''a.wav'' COMPLETED 100)\<lparr>output_file := Some ''outputs/a.mp3''\<rparr>,
                      ex_file ''b.wav'' PENDING 0]) = Some UPLOAD
   \<and> (\<exists>rq s'. resume_task ''t'' None ex_no_paths
          (ex_system [(ex_file ''a.wav'' COMPLETED 100)\<lparr>output_file := Some ''outputs/a.mp3''\<rparr>,
                      ex_file ''b.wav'' PENDING 0] None) = (Inr rq, s')
        \<and> req_source rq = UPLOAD \<and> req_output_format rq = ''mp3'')"
proof -
  let ?fs = "[(ex_file ''a.wav'' COMPLETED 100)\<lparr>output_file := Some ''outputs/a.mp3''\<rparr>,
              ex_file ''b.wav'' PENDING 0]"
  have h: "tasks (ex_system ?fs None) ''t'' = Some (ex_task ?fs) \<and> source (ex_task ?fs) = Some UPLOAD"
    by (simp add: ex_defs)
  from C8_resume_amended [of "ex_system ?fs None" "''t''" None ex_no_paths] h
  obtain rq s' t' where r: "resume_task ''t'' None ex_no_paths (ex_system ?fs None) = (Inr rq, s')"
      "tasks s' ''t'' = Some t'" "files t' = files (ex_task ?fs)" "req_source rq = UPLOAD"
      "req_output_format rq =
             (case find (\<lambda>f. truthy (output_file f)) (files t') of
                None \<Rightarrow> ''mp4''
              | Some f \<Rightarrow> (case output_file f of
                             Some p \<Rightarrow> lstrip_dot (path_suffix p) | None \<Rightarrow> ''mp4''))"
    by fastforce
  have "req_output_format rq = ''mp3''"
    unfolding r(5) r(3) by (simp add: ex_defs path_defs Let_def)
  with h r(1,4) show ?thesis by blast
qed

text \<open>
  Claim C8 as stated fails: a batch submitted for \<^verbatim>\<open>mp3\<close>, paused before any file
  has completed and resumed, is resumed for \<^verbatim>\<open>mp4\<close>.
\<close>

theorem C8_resume_counterexample:
  "fst (resume_task ''t'' None ex_no_paths
          (snd (pause_task ''t'' (snd (convert (ex_request [''a.wav''] ''mp3'') ''t'' ex_empty)))))
     = Inr (ex_request [''a.wav''] ''mp4'')
   \<and> req_output_format (ex_request [''a.wav''] ''mp4'') \<noteq> req_output_format (ex_request [''a.wav''] ''mp3'')"
  by (simp add: eval_defs ex_empty_def convert_def resume_task_def Let_def)

section \<open>Effects of the served requests\<close>

lemma pause_task_other:
  "tid' \<noteq> tid \<Longrightarrow> tasks (snd (pause_task tid' s)) tid = tasks s tid"
proof (cases "tasks s tid'")
  case None
  then show ?thesis by (simp add: pause_task_def)
next
  case (Some t)
  assume "tid' \<noteq> tid"
  with pause_task_result [OF Some] show ?thesis
    by (auto split: option.splits)
qed

lemma pause_task_same:
  assumes "tasks s tid = Some t"
  shows "\<exists>t'. tasks (snd (pause_task tid s)) tid = Some t' \<and> stopped t'
           \<and> files t' = map reset_processing (files t) \<and> source t' = source t"
  using pause_task_result [OF assms] by (auto split: option.splits)

lemma pause_task_registry:
  "active_processes (snd (pause_task tid' s)) =
     (if tasks s tid' = None then active_processes s else (active_processes s)(tid' := None))"
proof (cases "tasks s tid'")
  case None
  then show ?thesis by (simp add: pause_task_def)
next
  case (Some t)
  obtain s1 where "terminate_task_processes tid' s = Inr s1"
      "active_processes s1 = (active_processes s)(tid' := None)"
    using terminate_task_processes_result [of tid' s] by blast
  with pause_task_result [OF Some] Some show ?thesis
    by (auto split: option.splits)
qed


lemma stop_task_state:
  "snd (stop_task tid' s) =
     (case tasks s tid' of
        None \<Rightarrow> s
      | Some t \<Rightarrow> s\<lparr>tasks := (tasks s)(tid' \<mapsto> t\<lparr>stopped := True, paused := False\<rparr>)\<rparr>)"
  by (simp add: stop_task_def split: option.splits)

lemma serve_task_shape:
  assumes "tasks s tid = Some t"
  shows "\<exists>t'. tasks (serve r s) tid = Some t' \<and> length (files t') = length (files t)
           \<and> (stopped t \<longrightarrow> stopped t') \<and> source t' = source t"
proof (cases r)
  case (Pause_request tid')
  show ?thesis
  proof (cases "tid' = tid")
    case True
    then show ?thesis using pause_task_same [OF assms] Pause_request by auto
  next
    case False
    then show ?thesis using pause_task_other [of tid' tid s] assms Pause_request by simp
  qed
next
  case (Stop_request tid')
  then show ?thesis using assms by (auto simp: stop_task_state split: option.splits)
next
  case (Status_request tid')
  then show ?thesis using assms by (auto simp: get_status_def split: option.splits)
qed

lemma serve_not_pause_files:
  assumes "tasks s tid = Some t" and "r \<noteq> Pause_request tid"
  shows "\<exists>t'. tasks (serve r s) tid = Some t' \<and> files t' = files t
           \<and> overall_progress t' = overall_progress t"
proof (cases r)
  case (Pause_request tid')
  with assms(2) have "tid' \<noteq> tid" by simp
  then show ?thesis using pause_task_other [of tid' tid s] assms(1) Pause_request by simp
next
  case (Stop_request tid')
  then show ?thesis using assms by (auto simp: stop_task_state split: option.splits)
next
  case (Status_request tid')
  then show ?thesis using assms by (auto simp: get_status_def split: option.splits)
qed

lemma serve_not_pause_registry:
  "r \<noteq> Pause_request tid \<Longrightarrow> active_processes (serve r s) tid = active_processes s tid"
  by (cases r) (auto simp: pause_task_registry stop_task_state get_status_def split: option.splits)

lemma serve_stop_sets_flag:
  "tasks s tid = Some t \<Longrightarrow> \<exists>t'. tasks (serve (Stop_request tid) s) tid = Some t' \<and> stopped t'"
  by (simp add: stop_task_state)

lemma serve_pause_unregisters:
  "tasks s tid \<noteq> None \<Longrightarrow> active_processes (serve (Pause_request tid) s) tid = None"
  by (auto simp: pause_task_registry)

lemma serve_keeps_unregistered:
  assumes "active_processes s tid = None"
  shows "active_processes (serve r s) tid = None"
proof (cases r)
  case (Pause_request tid')
  have "active_processes (snd (pause_task tid' s)) tid = None"
    unfolding pause_task_registry using assms by (cases "tasks s tid' = None") simp_all
  then show ?thesis using Pause_request by simp
next
  case (Stop_request tid')
  then show ?thesis using assms by (simp add: stop_task_state split: option.splits)
next
  case (Status_request tid')
  then show ?thesis using assms by (simp add: get_status_def split: option.splits)
qed

section \<open>The callback and the assignments of the loop\<close>

lemma progress_callback_result:
  assumes "tasks s tid = Some t" and "idx < length (files t)"
  shows "progress_callback tid idx p s =
     Some (s\<lparr>tasks := (tasks s)(tid \<mapsto>
       t\<lparr>files := (files t)[idx := (files t ! idx)\<lparr>progress := p\<rparr>],
         overall_progress :=
           py_round2 (mean_progress ((files t)[idx := (files t ! idx)\<lparr>progress := p\<rparr>]))\<rparr>)\<rparr>)"
  using assms by (simp add: progress_callback_def Let_def)

lemma set_file_result:
  assumes "tasks s tid = Some t" and "idx < length (files t)"
  shows "set_file tid idx g s =
     s\<lparr>tasks := (tasks s)(tid \<mapsto> t\<lparr>files := (files t)[idx := g (files t ! idx)]\<rparr>)\<rparr>"
  using assms by (simp add: set_file_def)

lemma set_file_at:
  assumes "tasks s tid = Some t" and "idx < length (files t)"
  shows "\<exists>t'. tasks (set_file tid idx g s) tid = Some t' \<and> files t' ! idx = g (files t ! idx)"
  unfolding set_file_result [OF assms] using assms(2) by simp

section \<open>The conversion runner\<close>

text \<open>
  A property \<open>H\<close> of the requests served so far and the state, kept by every served
  request and by the callback, holds after any sequence of served requests and after the
  reading loop.
\<close>

lemma fold_serve_hist:
  assumes "H hist s"
    and "\<And>h r s. H h s \<Longrightarrow> H (h @ [r]) (serve r s)"
  shows "H (hist @ rs) (fold serve rs s)"
  using assms(1)
proof (induction rs arbitrary: hist s)
  case Nil
  then show ?case by simp
next
  case (Cons r rs)
  from Cons.prems have "H (hist @ [r]) (serve r s)" by (rule assms(2))
  from Cons.IH [OF this] show ?case by simp
qed

lemma read_stderr_hist:
  assumes "H hist s"
    and srv: "\<And>h r s. H h s \<Longrightarrow> H (h @ [r]) (serve r s)"
    and cb: "\<And>h p s. 0 \<le> p \<Longrightarrow> p \<le> 100 \<Longrightarrow> H h s \<Longrightarrow> \<exists>s'. f p s = Some s' \<and> H h s'"
  shows "\<exists>s'. read_stderr (Some f) d lines s = Inr s' \<and> H (hist @ concat (map fst lines)) s'"
  using assms(1)
proof (induction lines arbitrary: hist s)
  case Nil
  then show ?case by simp
next
  case (Cons x lines)
  obtain rs line where x: "x = (rs, line)" by (cases x)
  let ?s1 = "fold serve rs s"
  have h1: "H (hist @ rs) ?s1" using Cons.prems srv by (rule fold_serve_hist)
  show ?case
  proof (cases "0 < d \<and> parse_progress line d \<noteq> None")
    case False
    then have "read_stderr (Some f) d (x # lines) s = read_stderr (Some f) d lines ?s1"
      by (auto simp: x Let_def)
    then show ?thesis using Cons.IH [OF h1] by (simp add: x)
  next
    case True
    then obtain p where p: "parse_progress line d = Some p" by auto
    then have "0 \<le> p \<and> p \<le> 100" by (rule parse_progress_range)
    then obtain s2 where s2: "f p ?s1 = Some s2" "H (hist @ rs) s2" using cb h1 by blast
    have "read_stderr (Some f) d (x # lines) s = read_stderr (Some f) d lines s2"
      using True p s2(1) by (simp add: x Let_def)
    then show ?thesis using Cons.IH [OF s2(2)] by (simp add: x)
  qed
qed

lemma unregister_fields [simp]:
  "tasks (unregister tido s) = tasks s" "served (unregister tido s) = served s"
  by (auto simp: unregister_def split: option.splits)

lemma register_fields [simp]:
  "tasks (register tido p s) = tasks s" "served (register tido p s) = served s"
  by (cases tido; simp)+

lemma registered_unregister [simp]: "\<not> registered tido (unregister tido s)"
  by (cases tido) (auto simp: unregister_def)


text \<open>The outcome of a run whose callback does not raise.\<close>

lemma run_encoder_outcome:
  assumes se: "spawn_error env = None"
    and H0: "H [] s"
    and srv: "\<And>h r s. H h s \<Longrightarrow> H (h @ [r]) (serve r s)"
    and cb: "\<And>h p s. 0 \<le> p \<Longrightarrow> p \<le> 100 \<Longrightarrow> H h s \<Longrightarrow>
               \<exists>s'. f p s = Some s' \<and> H h s' \<and> active_processes s' = active_processes s"
    and frame: "\<And>h s s'. tasks s' = tasks s \<Longrightarrow> served s' = served s \<Longrightarrow> H h s \<Longrightarrow> H h s'"
    and ex: "\<And>h s. H h s \<Longrightarrow> tasks s tid \<noteq> None"
  shows "\<exists>s'. run_encoder cmd (Some tid) (Some f) env s =
           (if exit_code env = 0 then Ret_True
            else if tid \<noteq> [] \<and> Pause_request tid \<in> set (post_spawn_requests env) then Ret_None
            else Ret_False, s') \<and> H (run_requests env) s'"
proof -
  let ?s0 = "fold serve (during_spawn env) s"
  let ?h0 = "during_spawn env"
  let ?hl = "concat (map fst (stderr_lines env))"
  have i0: "H ?h0 ?s0" using fold_serve_hist [of H "[]" s, OF H0 srv] by simp
  let ?s1 = "register (Some tid) (spawned env) (?s0\<lparr>executed := executed ?s0 @ [cmd]\<rparr>)"
  have i1: "H ?h0 ?s1" by (rule frame [OF _ _ i0]) simp_all
  define N where "N = (\<lambda>h (s::system). tid \<noteq> [] \<longrightarrow>
     (if Pause_request tid \<in> set h then active_processes s tid = None
      else active_processes s tid \<noteq> None))"
  define G where "G = (\<lambda>h s. H (?h0 @ h) s \<and> N h s)"
  have g1: "G [] ?s1" using i1 by (simp add: G_def N_def)
  have gsrv: "G (h @ [r]) (serve r s)" if g: "G h s" for h r s
  proof -
    from g have h: "H (?h0 @ h) s" and n: "N h s" by (simp_all add: G_def)
    have "H (?h0 @ h @ [r]) (serve r s)" using srv [OF h, of r] by simp
    moreover have "N (h @ [r]) (serve r s)"
    proof (cases "r = Pause_request tid")
      case True
      then show ?thesis using serve_pause_unregisters [OF ex [OF h]] by (simp add: N_def)
    next
      case False
      show ?thesis
      proof (cases "Pause_request tid \<in> set h")
        case True
        then show ?thesis using n serve_keeps_unregistered [of s tid r] by (auto simp: N_def)
      next
        case np: False
        then show ?thesis using n False serve_not_pause_registry [of r tid s] by (auto simp: N_def)
      qed
    qed
    ultimately show ?thesis by (simp add: G_def)
  qed
  have gcb: "\<exists>s'. f p s = Some s' \<and> G h s'" if "0 \<le> p" "p \<le> 100" "G h s" for h p s
    using cb [OF that(1,2), of "?h0 @ h" s] that(3) by (auto simp: G_def N_def)
  obtain s2 where s2: "read_stderr (Some f) (file_duration env) (stderr_lines env) ?s1 = Inr s2"
      "G ?hl s2"
    using read_stderr_hist [of G "[]" ?s1 f, OF g1 gsrv gcb] by auto
  let ?s3 = "fold serve (during_exit env) s2"
  have g3: "G (?hl @ during_exit env) ?s3" using fold_serve_hist [of G ?hl s2, OF s2(2) gsrv] .
  then have h3: "H (run_requests env) ?s3" and nn: "N (?hl @ during_exit env) ?s3"
    by (simp_all add: G_def run_requests_def)
  have n3: "tid \<noteq> [] \<longrightarrow> (Pause_request tid \<in> set (post_spawn_requests env)) = (active_processes ?s3 tid = None)"
    using nn unfolding N_def post_spawn_requests_def by metis
  have wt: "(truthy (Some tid) \<and> \<not> registered (Some tid) ?s3) =
      (tid \<noteq> [] \<and> Pause_request tid \<in> set (post_spawn_requests env))" using n3 by auto
  have h4: "H (run_requests env) (unregister (Some tid) ?s3)" by (rule frame [OF _ _ h3]) simp_all
  have r: "run_encoder cmd (Some tid) (Some f) env s =
             classify_exit (Some tid) (Some f) (exit_code env) ?s3"
    using se s2(1) by (simp add: run_encoder_def Let_def)
  show ?thesis
  proof (cases "exit_code env = 0")
    case True
    obtain s5 where "f 100 (unregister (Some tid) ?s3) = Some s5" "H (run_requests env) s5"
      using cb [OF _ _ h4, of 100] by auto
    then show ?thesis using True by (simp add: r classify_exit_def Let_def)
  next
    case False
    then show ?thesis using h4 wt
      by (simp add: r classify_exit_def Let_def del: truthy.simps registered.simps)
  qed
qed

lemma run_state_serve:
  assumes "run_state tid idx t0 h s"
  shows "run_state tid idx t0 (h @ [r]) (serve r s)"
proof -
  from assms obtain t where t: "tasks s tid = Some t" "length (files t) = length (files t0)"
      "stopped t0 \<or> Stop_request tid \<in> set h \<or> Pause_request tid \<in> set h \<longrightarrow> stopped t"
      "Pause_request tid \<notin> set h \<longrightarrow>
         (\<forall>j < length (files t0). j \<noteq> idx \<longrightarrow> files t ! j = files t0 ! j)"
    by (auto simp: run_state_def)
  obtain t' where t': "tasks (serve r s) tid = Some t'" "length (files t') = length (files t)"
      "stopped t \<longrightarrow> stopped t'"
    using serve_task_shape [OF t(1), of r] by blast
  have st: "stopped t'" if "r = Stop_request tid \<or> r = Pause_request tid"
    using that serve_stop_sets_flag [OF t(1)] pause_task_same [OF t(1)] t'(1) by auto
  have fl: "files t' = files t" if "r \<noteq> Pause_request tid"
    using serve_not_pause_files [OF t(1) that] t'(1) by auto
  show ?thesis
    unfolding run_state_def using t' t(2,3,4) st fl by auto
qed

lemma run_state_callback:
  assumes "run_state tid idx t0 h s" and "idx < length (files t0)"
  shows "\<exists>s'. progress_callback tid idx p s = Some s' \<and> run_state tid idx t0 h s'
           \<and> active_processes s' = active_processes s"
proof -
  from assms obtain t where t: "tasks s tid = Some t" "idx < length (files t)"
    by (auto simp: run_state_def)
  show ?thesis
    using assms(1) t unfolding progress_callback_result [OF t] run_state_def by auto
qed

lemma run_state_frame:
  "tasks s' = tasks s \<Longrightarrow> run_state tid idx t0 h s \<Longrightarrow> run_state tid idx t0 h s'"
  by (simp add: run_state_def)

lemma run_state_set_file:
  assumes "run_state tid idx t0 h s"
  shows "run_state tid idx t0 h (set_file tid idx g s)"
proof -
  from assms obtain t where t: "tasks s tid = Some t" by (auto simp: run_state_def)
  show ?thesis
  proof (cases "idx < length (files t)")
    case True
    show ?thesis using assms t unfolding set_file_result [OF t True] run_state_def by auto
  next
    case False
    then show ?thesis using assms t by (simp add: set_file_def)
  qed
qed

lemma run_encoder_loop_callback:
  assumes "run_state tid idx t [] s" and "idx < length (files t)" and "spawn_error env = None"
  shows "\<exists>s'. run_encoder cmd (Some tid) (Some (progress_callback tid idx)) env s =
           (if exit_code env = 0 then Ret_True
            else if tid \<noteq> [] \<and> Pause_request tid \<in> set (post_spawn_requests env) then Ret_None
            else Ret_False, s') \<and> run_state tid idx t (run_requests env) s'"
proof (rule run_encoder_outcome [where H = "run_state tid idx t"])
  show "spawn_error env = None" by (rule assms(3))
  show "run_state tid idx t [] s" by (rule assms(1))
  show "run_state tid idx t (h @ [r]) (serve r s)" if "run_state tid idx t h s" for h r s
    using that by (rule run_state_serve)
  show "\<exists>s'. progress_callback tid idx p s = Some s' \<and> run_state tid idx t h s'
           \<and> active_processes s' = active_processes s"
    if "run_state tid idx t h s" for h p s
    using that assms(2) by (rule run_state_callback)
  show "run_state tid idx t h s'" if "tasks s' = tasks s" "run_state tid idx t h s" for h s s'
    using that by (rule run_state_frame)
  show "tasks s tid \<noteq> None" if "run_state tid idx t h s" for h s
    using that by (auto simp: run_state_def)
qed




section \<open>One file of the batch\<close>

lemma audio_codec_plan_Some:
  "codec \<noteq> None \<Longrightarrow> fst (audio_codec_plan i ou codec hp) \<noteq> None"
  by (auto simp: audio_codec_plan_def Let_def)

lemma convert_audio_cmd_Some:
  assumes "codec \<noteq> None"
  shows "convert_audio_cmd ff inp ou b sr ch codec v \<noteq> None"
proof -
  define hp where "hp = (truthy b \<or> truthy sr \<or> truthy ch \<or> truthy v)"
  obtain c cp where pl: "audio_codec_plan (file_ext inp) (file_ext ou) codec hp = (Some c, cp)"
    using audio_codec_plan_Some [OF assms, of "file_ext inp" "file_ext ou" hp]
    by (cases "audio_codec_plan (file_ext inp) (file_ext ou) codec hp") auto
  show ?thesis unfolding convert_audio_cmd_def Let_def hp_def [symmetric] pl by simp
qed

lemma convert_video_cmd_Some:
  "vc \<noteq> None \<Longrightarrow> ac \<noteq> None \<Longrightarrow> convert_video_cmd ff inp ou r vb vc ac ab fr \<noteq> None"
  by (auto simp: convert_video_cmd_def video_codec_plan_def Let_def split: prod.splits option.splits)

lemma convert_file_runs:
  assumes "get_media_type inp \<noteq> None" and "req_audio_codec rq \<noteq> None"
    and "req_video_codec rq \<noteq> None" and "ffmpeg_command env = Inr ff"
  shows "\<exists>cmd. convert_file inp ou rq cb tido env s = run_encoder cmd tido cb env s"
proof -
  from assms(1) obtain mt where mt: "get_media_type inp = Some mt" by auto
  show ?thesis
  proof (cases mt)
    case AUDIO
    obtain cmd where "convert_audio_cmd ff inp ou (req_audio_bitrate rq) (req_sample_rate rq)
        (req_audio_channels rq) (req_audio_codec rq) (req_volume_adjust rq) = Some cmd"
      using convert_audio_cmd_Some [OF assms(2)] by fastforce
    then show ?thesis using mt AUDIO assms(4)
      by (auto simp: convert_file_def convert_audio_def)
  next
    case VIDEO
    obtain cmd where "convert_video_cmd ff inp ou (req_resolution rq) (req_video_bitrate rq)
        (req_video_codec rq) (req_audio_codec rq) (req_audio_bitrate rq) (req_frame_rate rq) = Some cmd"
      using convert_video_cmd_Some [OF assms(3,2)] by fastforce
    then show ?thesis using mt VIDEO assms(4)
      by (auto simp: convert_file_def convert_video_def)
  qed
qed

text \<open>One file whose encoder is spawned and whose callback is the loop's.\<close>

lemma process_file_outcome:
  assumes t: "tasks s tid = Some t" "idx < length (files t)"
    and env: "input_exists env" "path_parent name \<noteq> ''.'' \<longrightarrow> mkdir_error env = None"
      "ffmpeg_command env = Inr ff" "spawn_error env = None"
    and rq: "get_media_type (get_file_path name (req_source rq)) \<noteq> None"
      "req_audio_codec rq \<noteq> None" "req_video_codec rq \<noteq> None"
  shows "\<exists>s' t'. process_file tid rq idx name env s =
            (exit_code env \<noteq> 0 \<and> tid \<noteq> [] \<and> Pause_request tid \<in> set (post_spawn_requests env), s')
         \<and> run_state tid idx t (run_requests env) s' \<and> tasks s' tid = Some t'
         \<and> status (files t' ! idx) =
             (if exit_code env = 0 then COMPLETED
              else if tid \<noteq> [] \<and> Pause_request tid \<in> set (post_spawn_requests env) then PENDING
              else FAILED)
         \<and> (exit_code env = 0 \<longrightarrow> progress (files t' ! idx) = 100
              \<and> output_file (files t' ! idx) = Some (output_path_of name (req_output_format rq)))
         \<and> (exit_code env \<noteq> 0 \<and> \<not> (tid \<noteq> [] \<and> Pause_request tid \<in> set (post_spawn_requests env)) \<longrightarrow>
              error (files t' ! idx) = Some conversion_failed_msg)"
proof -
  let ?s1 = "set_file tid idx (\<lambda>f. f\<lparr>status := PROCESSING, progress := 0\<rparr>) s"
  let ?inp = "get_file_path name (req_source rq)"
  let ?out = "output_path_of name (req_output_format rq)"
  let ?cb = "progress_callback tid idx"
  have r0: "run_state tid idx t [] s" using t by (simp add: run_state_def)
  then have r1: "run_state tid idx t [] ?s1" by (rule run_state_set_file)
  obtain cmd where cmd: "convert_file ?inp ?out rq (Some ?cb) (Some tid) env ?s1 =
      run_encoder cmd (Some tid) (Some ?cb) env ?s1"
    using convert_file_runs [OF rq env(3)] by blast
  let ?res = "if exit_code env = 0 then Ret_True
            else if tid \<noteq> [] \<and> Pause_request tid \<in> set (post_spawn_requests env) then Ret_None
            else Ret_False"
  obtain s2 where s2: "run_encoder cmd (Some tid) (Some ?cb) env ?s1 = (?res, s2)"
      "run_state tid idx t (run_requests env) s2"
    using run_encoder_loop_callback [OF r1 t(2) env(4), of cmd] by blast
  from s2(2) obtain t2 where t2: "tasks s2 tid = Some t2" "idx < length (files t2)"
    using t(2) by (auto simp: run_state_def)
  have mk: "(if path_parent name \<noteq> ''.'' then mkdir_error env else None) = None"
    using env(2) by simp
  have pf: "process_file tid rq idx name env s =
      (case (?res, s2) of
         (Ret_True, s2) \<Rightarrow>
           (False, set_file tid idx
              (\<lambda>f. f\<lparr>status := COMPLETED, progress := 100, output_file := Some ?out,
                     output_size := (case out_size env of Some n \<Rightarrow> Some n
                                     | None \<Rightarrow> output_size f)\<rparr>) s2)
       | (Ret_None, s2) \<Rightarrow>
           (True, set_file tid idx (\<lambda>f. f\<lparr>status := PENDING, progress := 0\<rparr>) s2)
       | (Ret_False, s2) \<Rightarrow> (False, mark_failed tid idx conversion_failed_msg s2)
       | (Raised msg, s2) \<Rightarrow> (False, mark_failed tid idx msg s2))"
    unfolding process_file_def Let_def using env(1) mk cmd s2(1) by simp
  show ?thesis
  proof (cases "exit_code env = 0")
    case True
    let ?g = "\<lambda>f. f\<lparr>status := COMPLETED, progress := 100, output_file := Some ?out,
                     output_size := (case out_size env of Some n \<Rightarrow> Some n
                                     | None \<Rightarrow> output_size f)\<rparr>"
    have "process_file tid rq idx name env s = (False, set_file tid idx ?g s2)"
      using pf True by simp
    moreover have "run_state tid idx t (run_requests env) (set_file tid idx ?g s2)"
      using s2(2) by (rule run_state_set_file)
    moreover obtain t' where "tasks (set_file tid idx ?g s2) tid = Some t'"
        "files t' ! idx = ?g (files t2 ! idx)"
      using set_file_at [OF t2, of ?g] by blast
    ultimately show ?thesis using True by auto
  next
    case nz: False
    show ?thesis
    proof (cases "tid \<noteq> [] \<and> Pause_request tid \<in> set (post_spawn_requests env)")
      case True
      let ?g = "\<lambda>f. f\<lparr>status := PENDING, progress := 0\<rparr>"
      have "process_file tid rq idx name env s = (True, set_file tid idx ?g s2)"
        using pf nz True by simp
      moreover have "run_state tid idx t (run_requests env) (set_file tid idx ?g s2)"
        using s2(2) by (rule run_state_set_file)
      moreover obtain t' where "tasks (set_file tid idx ?g s2) tid = Some t'"
          "files t' ! idx = ?g (files t2 ! idx)"
        using set_file_at [OF t2, of ?g] by blast
      ultimately show ?thesis using nz True by auto
    next
      case False
      let ?g = "\<lambda>f. f\<lparr>status := FAILED, error := Some conversion_failed_msg\<rparr>"
      have "process_file tid rq idx name env s = (False, set_file tid idx ?g s2)"
        using pf nz False by (simp add: mark_failed_def)
      moreover have "run_state tid idx t (run_requests env) (set_file tid idx ?g s2)"
        using s2(2) by (rule run_state_set_file)
      moreover obtain t' where "tasks (set_file tid idx ?g s2) tid = Some t'"
          "files t' ! idx = ?g (files t2 ! idx)"
        using set_file_at [OF t2, of ?g] by blast
      ultimately show ?thesis using nz False by auto
    qed
  qed
qed


text \<open>
  Claim C7, amended. When the encoder of the file at \<open>idx\<close> is spawned, exits with a
  nonzero status and no pause request for the task was served after its registration, the
  file is marked Failed with the fixed message of a failed conversion, and the loop goes
  on with the next file.
\<close>

theorem C7_encoding_failure_amended:
  assumes "tasks s tid = Some t" and "\<not> stopped t" and "idx < length (files t)"
    and "status (files t ! idx) \<noteq> COMPLETED"
    and "input_exists (envs idx)"
    and "path_parent name \<noteq> ''.'' \<longrightarrow> mkdir_error (envs idx) = None"
    and "ffmpeg_command (envs idx) = Inr ff" and "spawn_error (envs idx) = None"
    and "get_media_type (get_file_path name (req_source rq)) \<noteq> None"
    and "req_audio_codec rq \<noteq> None" and "req_video_codec rq \<noteq> None"
    and "exit_code (envs idx) \<noteq> 0"
    and "Pause_request tid \<notin> set (post_spawn_requests (envs idx))"
  shows "\<exists>s' t'. process_file tid rq idx name (envs idx) s = (False, s')
           \<and> tasks s' tid = Some t'
           \<and> status (files t' ! idx) = FAILED
           \<and> error (files t' ! idx) = Some conversion_failed_msg
           \<and> drive tid rq envs idx (name # rest) s = drive tid rq envs (Suc idx) rest s'"
proof -
  from process_file_outcome [OF assms(1,3,5,6,7,8,9,10,11)]
  obtain s' t' where p0: "process_file tid rq idx name (envs idx) s =
            (exit_code (envs idx) \<noteq> 0 \<and> tid \<noteq> [] \<and>
             Pause_request tid \<in> set (post_spawn_requests (envs idx)), s')"
      "tasks s' tid = Some t'"
      "status (files t' ! idx) =
             (if exit_code (envs idx) = 0 then COMPLETED
              else if tid \<noteq> [] \<and> Pause_request tid \<in> set (post_spawn_requests (envs idx))
              then PENDING else FAILED)"
      "exit_code (envs idx) \<noteq> 0 \<and>
         \<not> (tid \<noteq> [] \<and> Pause_request tid \<in> set (post_spawn_requests (envs idx))) \<longrightarrow>
       error (files t' ! idx) = Some conversion_failed_msg"
    by blast
  have p: "process_file tid rq idx name (envs idx) s = (False, s')"
      "tasks s' tid = Some t'" "status (files t' ! idx) = FAILED"
      "error (files t' ! idx) = Some conversion_failed_msg"
    using p0 assms(12,13) by simp_all
  have "drive tid rq envs idx (name # rest) s = drive tid rq envs (Suc idx) rest s'"
    using assms(1,2,3,4) p(1) by simp
  with p show ?thesis by blast
qed

theorem C7_encoding_failure_amended_witness:
  "tasks (ex_system ex_two_files None) ''t'' = Some (ex_task ex_two_files)
   \<and> \<not> stopped (ex_task ex_two_files) \<and> (0::nat) < length (files (ex_task ex_two_files))
   \<and> status (files (ex_task ex_two_files) ! 0) \<noteq> COMPLETED
   \<and> input_exists ex_fail_env \<and> ffmpeg_command ex_fail_env = Inr ''ffmpeg''
   \<and> spawn_error ex_fail_env = None \<and> exit_code ex_fail_env \<noteq> 0
   \<and> Pause_request ''t'' \<notin> set (post_spawn_requests ex_fail_env)
   \<and> get_media_type (get_file_path ''a.wav'' (req_source (ex_request [''a.wav'', ''b.wav''] ''mp3''))) \<noteq> None
   \<and> (\<exists>s' t'. process_file ''t'' (ex_request [''a.wav'', ''b.wav''] ''mp3'') 0 ''a.wav'' ex_fail_env
                  (ex_system ex_two_files None) = (False, s')
         \<and> tasks s' ''t'' = Some t' \<and> status (files t' ! 0) = FAILED
         \<and> error (files t' ! 0) = Some conversion_failed_msg
         \<and> drive ''t'' (ex_request [''a.wav'', ''b.wav''] ''mp3'') (ex_envs ex_fail_env) 0
             [''a.wav'', ''b.wav''] (ex_system ex_two_files None)
           = drive ''t'' (ex_request [''a.wav'', ''b.wav''] ''mp3'') (ex_envs ex_fail_env) 1
             [''b.wav''] s')"
proof -
  let ?rq = "ex_request [''a.wav'', ''b.wav''] ''mp3''"
  let ?s = "ex_system ex_two_files None"
  have h1: "tasks ?s ''t'' = Some (ex_task ex_two_files)"
    and h2: "\<not> stopped (ex_task ex_two_files)"
    and h3: "(0::nat) < length (files (ex_task ex_two_files))"
    and h4: "status (files (ex_task ex_two_files) ! 0) \<noteq> COMPLETED"
    and h5: "input_exists (ex_envs ex_fail_env 0)"
    and h6: "path_parent ''a.wav'' \<noteq> ''.'' \<longrightarrow> mkdir_error (ex_envs ex_fail_env 0) = None"
    and h7: "ffmpeg_command (ex_envs ex_fail_env 0) = Inr ''ffmpeg''"
    and h8: "spawn_error (ex_envs ex_fail_env 0) = None"
    and h9: "get_media_type (get_file_path ''a.wav'' (req_source ?rq)) \<noteq> None"
    and h10: "req_audio_codec ?rq \<noteq> None" and h11: "req_video_codec ?rq \<noteq> None"
    and h12: "exit_code (ex_envs ex_fail_env 0) \<noteq> 0"
    and h13: "Pause_request ''t'' \<notin> set (post_spawn_requests (ex_envs ex_fail_env 0))"
    by (simp_all add: eval_defs2 Let_def)
  have e: "ex_envs ex_fail_env 0 = ex_fail_env" by (simp add: ex_envs_def)
  from C7_encoding_failure_amended [where envs = "ex_envs ex_fail_env" and idx = 0
      and rest = "[''b.wav'']", OF h1 h2 h3 h4 h5 h6 h7 h8 h9 h10 h11 h12 h13]
  have "\<exists>s' t'. process_file ''t'' ?rq 0 ''a.wav'' ex_fail_env ?s = (False, s')
         \<and> tasks s' ''t'' = Some t' \<and> status (files t' ! 0) = FAILED
         \<and> error (files t' ! 0) = Some conversion_failed_msg
         \<and> drive ''t'' ?rq (ex_envs ex_fail_env) 0 [''a.wav'', ''b.wav''] ?s
           = drive ''t'' ?rq (ex_envs ex_fail_env) 1 [''b.wav''] s'"
    by (simp add: e)
  then show ?thesis using h1 h2 h3 h4 h5 h7 h8 h9 h12 h13 unfolding e by blast
qed

text \<open>
  Claim C7 as stated fails: the encoder writes \<^verbatim>\<open>boom\<close> and exits with status 1;
  the file is Failed and its error message is the fixed message, not the captured text.
\<close>

theorem C7_encoding_failure_counterexample:
  "map_option (map (\<lambda>f. (status f, error f)) \<circ> files)
     (tasks (process_batch_convert ''t'' (ex_request [''a.wav''] ''mp3'')
        (ex_envs (ex_env [] [([], ''boom'')] [] 1))
        (ex_system [ex_file ''a.wav'' PENDING 0] None)) ''t'')
   = Some [(FAILED, Some conversion_failed_msg)]
   \<and> conversion_failed_msg \<noteq> ''boom''"
  by (simp add: run_defs ex_defs path_defs parse_defs handler_defs conversion_failed_msg_def Let_def)



section \<open>The bound on the progress values\<close>






























lemma ex_after_run_task:
  "map_option (\<lambda>t. (map (\<lambda>f. (status f, progress f)) (files t), overall_progress t, stopped t))
     (tasks ex_after_run ''t'')
   = Some ([(COMPLETED, 100), (PENDING, 0)], 50, True)"
  by (simp add: ex_after_run_def eval_defs2 Let_def)


end
